theory Spec2Isabelle
  imports Complex_Main "HOL-Library.Word"
begin

unbundle bit_operations_syntax

section \<open>Go values used by dht.go\<close>

text \<open>
  A Go \<open>string\<close> is a sequence of bytes; so is the contents of a \<open>[]byte\<close>. Both are
  lists of 8-bit characters here. Go's \<open>int\<close> and \<open>int64\<close> are integers, with
  the 64-bit wrap-around written out where the program does arithmetic on them.
\<close>

type_synonym bytes = string

datatype panic = SliceBounds | IndexRange | TypeAssertion | DivideByZero | Unmodelled

text \<open>
  A byte slice: the \<open>len\<close> elements it shows, and the rest of its backing array up to
  \<open>cap\<close>. Go checks the upper bound of a slice expression \<open>s[:h]\<close> against the
  capacity, not the length, so the spare part matters.
\<close>

datatype slice = Slice (elems: bytes) (spare: bytes)

definition len :: "slice \<Rightarrow> nat" where
  "len s = length (elems s)"

definition cap :: "slice \<Rightarrow> nat" where
  "cap s = length (elems s) + length (spare s)"

text \<open>\<open>s[:h]\<close>: panics when \<open>h > cap(s)\<close>.\<close>

definition slice_to :: "slice \<Rightarrow> nat \<Rightarrow> panic + slice" where
  "slice_to s h =
     (if h > cap s then Inl SliceBounds
      else Inr (Slice (take h (elems s @ spare s)) (drop h (elems s @ spare s))))"

text \<open>\<open>s[l:]\<close>, that is \<open>s[l:len(s)]\<close>: panics when \<open>l > len(s)\<close>.\<close>

definition slice_from :: "slice \<Rightarrow> nat \<Rightarrow> panic + slice" where
  "slice_from s l =
     (if l > len s then Inl SliceBounds
      else Inr (Slice (drop l (elems s)) (spare s)))"

text \<open>
  \<open>copy(id[lo:hi], src)\<close> for in-range \<open>lo \<le> hi \<le> len(id)\<close>: the first
  \<open>min (hi - lo) (len src)\<close> bytes of \<open>src\<close> overwrite \<open>id\<close> from offset \<open>lo\<close>.
\<close>

definition copy_range :: "bytes \<Rightarrow> nat \<Rightarrow> nat \<Rightarrow> bytes \<Rightarrow> bytes" where
  "copy_range dst lo hi src =
     (let n = min (hi - lo) (length src)
      in take lo dst @ take n src @ drop (lo + n) dst)"

type_synonym nodeID = slice

definition closeness :: nat where
  "closeness = 15"

text \<open>\<open>make([]byte, n)\<close>: \<open>n\<close> zero bytes, capacity \<open>n\<close>.\<close>

definition make_bytes :: "nat \<Rightarrow> bytes" where
  "make_bytes n = replicate n (CHR 0x00)"

definition neighborID :: "nodeID \<Rightarrow> nodeID \<Rightarrow> panic + nodeID" where
  "neighborID target local =
     (let id0 = make_bytes 20 in
      case slice_to target closeness of
        Inl e \<Rightarrow> Inl e
      | Inr t \<Rightarrow>
          (let id1 = copy_range id0 0 closeness (elems t) in
           case slice_from local closeness of
             Inl e \<Rightarrow> Inl e
           | Inr l \<Rightarrow> Inr (Slice (copy_range id1 closeness 20 (elems l)) [])))"

section \<open>Bencoded values and type assertions\<close>

text \<open>
  What \<open>bencode.Decode\<close> puts into an \<open>interface{}\<close>: a string, an \<open>int64\<close>, a list or a
  dictionary (\<open>map[string]interface{}\<close>). A missing key reads as the nil interface,
  which is \<open>None\<close> here.
\<close>

datatype bval =
    BString string
  | BInt int
  | BList "bval list"
  | BDict "string \<Rightarrow> bval option"

type_synonym dict = "string \<Rightarrow> bval option"

text \<open>The comma-ok assertions \<open>v.(string)\<close>, \<open>v.(map[string]interface{})\<close>, \<open>v.(int64)\<close>.\<close>

fun as_string :: "bval option \<Rightarrow> string option" where
  "as_string (Some (BString s)) = Some s"
| "as_string _ = None"

fun as_dict :: "bval option \<Rightarrow> dict option" where
  "as_dict (Some (BDict d)) = Some d"
| "as_dict _ = None"

fun as_int64 :: "bval option \<Rightarrow> int option" where
  "as_int64 (Some (BInt i)) = Some i"
| "as_int64 _ = None"

section \<open>Standard-library functions used by dht.go\<close>

text \<open>\<open>s[lo:hi]\<close> on a string: panics unless \<open>lo \<le> hi \<le> len(s)\<close>.\<close>

definition substr :: "string \<Rightarrow> nat \<Rightarrow> nat \<Rightarrow> panic + string" where
  "substr s lo hi =
     (if lo \<le> hi \<and> hi \<le> length s then Inr (take (hi - lo) (drop lo s)) else Inl SliceBounds)"

definition digit :: "nat \<Rightarrow> char" where
  "digit d = ''0123456789'' ! d"

text \<open>Decimal rendering of a non-negative number, without leading zeros.\<close>

function decimal :: "nat \<Rightarrow> string" where
  "decimal n = (if n < 10 then [digit n] else decimal (n div 10) @ [digit (n mod 10)])"
  by pat_completeness auto
termination
  by (relation "measure (\<lambda>n. n)") auto

text \<open>\<open>strconv.Itoa\<close>.\<close>

definition Itoa :: "int \<Rightarrow> string" where
  "Itoa i = (if i < 0 then CHR ''-'' # decimal (nat (- i)) else decimal (nat i))"

text \<open>
  \<open>net.IP(b).String()\<close> for a 4-byte address: dotted decimal. The other lengths
  (textual IPv6, \<open><nil>\<close>, the \<open>?\<close> form) are not needed by \<open>decodeNodes\<close> and are left out.
\<close>

fun IP_String :: "bytes \<Rightarrow> panic + string" where
  "IP_String [a, b, c, d] =
     Inr (decimal (of_char a) @ ''.'' @ decimal (of_char b) @ ''.''
          @ decimal (of_char c) @ ''.'' @ decimal (of_char d))"
| "IP_String _ = Inl Unmodelled"

text \<open>
  \<open>binary.BigEndian.Uint16(b)\<close>: \<open>_ = b[1]\<close> is the bounds check, then
  \<open>uint16(b[1]) | uint16(b[0])<<8\<close>.
\<close>

definition Uint16 :: "bytes \<Rightarrow> panic + 16 word" where
  "Uint16 b =
     (if length b < 2 then Inl IndexRange
      else Inr (of_nat (of_char (b ! 1)) OR push_bit 8 (of_nat (of_char (b ! 0)))))"

definition hextable :: string where
  "hextable = ''0123456789abcdef''"

text \<open>\<open>hex.EncodeToString\<close>: \<open>hextable[v>>4]\<close>, then \<open>hextable[v&0x0f]\<close>, for every byte.\<close>

fun EncodeToString :: "bytes \<Rightarrow> string" where
  "EncodeToString [] = []"
| "EncodeToString (v # vs) =
     hextable ! (of_char v div 16) # hextable ! (of_char v mod 16) # EncodeToString vs"

text \<open>Go's integer division truncates towards zero; a zero divisor panics.\<close>

definition go_div :: "int \<Rightarrow> int \<Rightarrow> panic + int" where
  "go_div a b =
     (if b = 0 then Inl DivideByZero else Inr (sgn a * sgn b * (\<bar>a\<bar> div \<bar>b\<bar>)))"

text \<open>Arithmetic on Go's 64-bit \<open>int\<close> wraps around.\<close>

definition wrap64 :: "int \<Rightarrow> int" where
  "wrap64 i = signed_take_bit 63 i"

section \<open>The rate limiter\<close>

text \<open>
  Modelled from the spec: the token bucket of the \<open>rate\<close> package, which dht.go imports
  and which is not among the sources. The bucket holds at most \<open>burst\<close> tokens, starts
  full, gains one token per \<open>interval\<close> of elapsed time and \<open>Allow\<close> takes one token
  when there is one. Time is in nanoseconds; the token count is an exact rational.
  A limit built from a non-positive interval is infinite: \<open>Allow\<close> always succeeds.
\<close>

datatype Limit = Inf_limit | PerInterval int

definition Every :: "int \<Rightarrow> Limit" where
  "Every interval = (if interval \<le> 0 then Inf_limit else PerInterval interval)"

record limiter =
  limit :: Limit
  burst :: int
  tokens :: rat
  last_time :: int

definition NewLimiter :: "Limit \<Rightarrow> int \<Rightarrow> limiter" where
  "NewLimiter r b = \<lparr>limit = r, burst = b, tokens = of_int b, last_time = 0\<rparr>"

definition Allow :: "limiter \<Rightarrow> int \<Rightarrow> bool \<times> limiter" where
  "Allow lm now =
     (case limit lm of
        Inf_limit \<Rightarrow> (True, lm)
      | PerInterval iv \<Rightarrow>
          (let lst = min (last_time lm) now;
               tok = min (of_int (burst lm)) (tokens lm + of_int (now - lst) / of_int iv)
           in if 1 \<le> tok then (True, lm\<lparr>tokens := tok - 1, last_time := now\<rparr>)
              else (False, lm)))"

definition second :: int where
  "second = 1000000000"

definition per :: "int \<Rightarrow> int \<Rightarrow> panic + Limit" where
  "per events duration =
     (case go_div duration events of Inl e \<Rightarrow> Inl e | Inr iv \<Rightarrow> Inr (Every iv))"

section \<open>The data of dht.go\<close>

record node =
  addr :: string
  id_node :: string

record UDPAddr =
  IP :: bytes
  Port :: int
  Zone :: string

record TCPAddr =
  tcp_IP :: bytes
  tcp_Port :: int

record announcement =
  raw :: dict
  from_addr :: UDPAddr
  peer :: TCPAddr
  infohash :: bytes
  infohashHex :: string

text \<open>
  The state of the engine. The channels and the socket are the sequences of what has
  been put into them: \<open>chNode\<close> the nodes handed to the discovery task, \<open>conn\<close> the
  datagrams written, \<open>announcementNotifier\<close> the number of signals pending in a channel
  of capacity 1. \<open>clock_reads\<close> counts the readings of the clock made so far.
\<close>

record dht =
  announcements :: "announcement list"
  announcementNotifier :: nat
  chNode :: "node list"
  localID :: nodeID
  conn :: "(bytes \<times> UDPAddr) list"
  friendsLimiter :: limiter
  maxAnnouncements :: int
  secret :: string
  clock_reads :: nat

text \<open>
  What the program takes from outside its own source: the bencode codec, SHA-1, the
  capacity the Go implementation gives to \<open>[]byte(s)\<close> (the language fixes the
  elements and leaves the capacity to the implementation; \<open>bytes_spare\<close> is the part of
  the backing array beyond the length), and the clock, as the reading returned by the
  \<open>k\<close>-th call of \<open>time.Now\<close>.
\<close>

record runtime =
  bencode_Decode :: "bytes \<Rightarrow> dict option"
  bencode_Encode :: "dict \<Rightarrow> bytes"
  sha1_Sum :: "bytes \<Rightarrow> bytes"
  bytes_spare :: "string \<Rightarrow> bytes"
  time_Now :: "nat \<Rightarrow> int"

definition to_bytes :: "runtime \<Rightarrow> string \<Rightarrow> slice" where
  "to_bytes rt s = Slice s (bytes_spare rt s)"

section \<open>The functions of dht.go\<close>

definition makeReply :: "string \<Rightarrow> dict \<Rightarrow> dict" where
  "makeReply tid r = [''t'' \<mapsto> BString tid, ''y'' \<mapsto> BString ''r'', ''r'' \<mapsto> BDict r]"

function decodeNodes_loop :: "string \<Rightarrow> nat \<Rightarrow> node list \<Rightarrow> panic + node list" where
  "decodeNodes_loop s i nodes =
     (if i < length s then
        (case substr s i (i + 20) of
           Inl e \<Rightarrow> Inl e
         | Inr ident \<Rightarrow>
             (case substr s (i + 20) (i + 24) of
                Inl e \<Rightarrow> Inl e
              | Inr ipb \<Rightarrow>
                  (case IP_String ipb of
                     Inl e \<Rightarrow> Inl e
                   | Inr ip \<Rightarrow>
                       (case substr s (i + 24) (i + 26) of
                          Inl e \<Rightarrow> Inl e
                        | Inr pb \<Rightarrow>
                            (case Uint16 pb of
                               Inl e \<Rightarrow> Inl e
                             | Inr port \<Rightarrow>
                                 decodeNodes_loop s (i + 26)
                                   (nodes @ [\<lparr>addr = ip @ '':'' @ Itoa (uint port),
                                              id_node = ident\<rparr>]))))))
      else Inr nodes)"
  by pat_completeness auto
termination
  by (relation "measure (\<lambda>(s, i, nodes). length s - i)") auto

definition decodeNodes :: "string \<Rightarrow> panic + node list" where
  "decodeNodes s =
     (if length s mod 26 \<noteq> 0 then Inr [] else decodeNodes_loop s 0 [])"

text \<open>
  \<open>newDHT\<close>, given whether the socket could be bound and the two draws of
  \<open>randBytes(20)\<close>. \<open>None\<close> is the return of \<open>(nil, err)\<close>. The three tasks it starts are
  not part of the state.
\<close>

definition newDHT :: "bool \<Rightarrow> bytes \<Rightarrow> bytes \<Rightarrow> int \<Rightarrow> panic + dht option" where
  "newDHT listen_ok rand1 rand2 maxFriendsPerSec =
     (if \<not> listen_ok then Inr None
      else
        (case per maxFriendsPerSec second of
           Inl e \<Rightarrow> Inl e
         | Inr r \<Rightarrow>
             Inr (Some \<lparr>announcements = [],
                        announcementNotifier = 0,
                        chNode = [],
                        localID = Slice rand1 [],
                        conn = [],
                        friendsLimiter = NewLimiter r maxFriendsPerSec,
                        maxAnnouncements = wrap64 (maxFriendsPerSec * 10),
                        secret = rand2,
                        clock_reads = 0\<rparr>)))"

definition genToken :: "runtime \<Rightarrow> dht \<Rightarrow> UDPAddr \<Rightarrow> string" where
  "genToken rt g from = sha1_Sum rt (IP from @ secret g)"

definition validateToken :: "runtime \<Rightarrow> dht \<Rightarrow> string \<Rightarrow> UDPAddr \<Rightarrow> bool" where
  "validateToken rt g token from = (token = genToken rt g from)"

definition send :: "runtime \<Rightarrow> dht \<Rightarrow> dict \<Rightarrow> UDPAddr \<Rightarrow> dht" where
  "send rt g d to = g\<lparr>conn := conn g @ [(bencode_Encode rt d, to)]\<rparr>"

text \<open>\<open>friendsLimiter.Allow()\<close>: one reading of the clock, one test of the bucket.\<close>

definition friendsLimiter_Allow :: "runtime \<Rightarrow> dht \<Rightarrow> bool \<times> dht" where
  "friendsLimiter_Allow rt g =
     (let (ok, lm) = Allow (friendsLimiter g) (time_Now rt (clock_reads g))
      in (ok, g\<lparr>friendsLimiter := lm, clock_reads := Suc (clock_reads g)\<rparr>))"

text \<open>The \<open>for ... range\<close> loop of \<open>onReply\<close>.\<close>

fun onReply_loop :: "runtime \<Rightarrow> dht \<Rightarrow> node list \<Rightarrow> dht" where
  "onReply_loop rt g [] = g"
| "onReply_loop rt g (n # ns) =
     (let (ok, g1) = friendsLimiter_Allow rt g
      in if \<not> ok then onReply_loop rt g1 ns
         else onReply_loop rt (g1\<lparr>chNode := chNode g1 @ [n]\<rparr>) ns)"

definition onReply :: "runtime \<Rightarrow> dht \<Rightarrow> dict \<Rightarrow> UDPAddr \<Rightarrow> panic + dht" where
  "onReply rt g d from =
     (case as_dict (d ''r'') of
        None \<Rightarrow> Inr g
      | Some r \<Rightarrow>
          (case as_string (r ''nodes'') of
             None \<Rightarrow> Inr g
           | Some nodes \<Rightarrow>
               (case decodeNodes nodes of
                  Inl e \<Rightarrow> Inl e
                | Inr ns \<Rightarrow> Inr (onReply_loop rt g ns))))"

text \<open>\<open>dict["t"].(string)\<close> without comma-ok panics when the assertion fails.\<close>

definition onGetPeersQuery :: "runtime \<Rightarrow> dht \<Rightarrow> dict \<Rightarrow> UDPAddr \<Rightarrow> panic + dht" where
  "onGetPeersQuery rt g d from =
     (case as_string (d ''t'') of
        None \<Rightarrow> Inl TypeAssertion
      | Some tid \<Rightarrow>
          (case as_dict (d ''a'') of
             None \<Rightarrow> Inr g
           | Some a \<Rightarrow>
               (case as_string (a ''id'') of
                  None \<Rightarrow> Inr g
                | Some ident \<Rightarrow>
                    (case neighborID (to_bytes rt ident) (localID g) of
                       Inl e \<Rightarrow> Inl e
                     | Inr nid \<Rightarrow>
                         Inr (send rt g
                                (makeReply tid
                                   [''id'' \<mapsto> BString (elems nid),
                                    ''nodes'' \<mapsto> BString '''',
                                    ''token'' \<mapsto> BString (genToken rt g from)])
                                from)))))"

definition summarize :: "dict \<Rightarrow> UDPAddr \<Rightarrow> announcement option" where
  "summarize d from =
     (case as_dict (d ''a'') of
        None \<Rightarrow> None
      | Some a \<Rightarrow>
          (case as_string (a ''info_hash'') of
             None \<Rightarrow> None
           | Some ih \<Rightarrow>
               (let port =
                      (case as_int64 (a ''implied_port'') of
                         None \<Rightarrow> Port from
                       | Some impliedPort \<Rightarrow>
                           if impliedPort = 0 then
                             (case as_int64 (a ''port'') of
                                None \<Rightarrow> Port from
                              | Some p \<Rightarrow> p)
                           else Port from)
                in Some \<lparr>raw = d,
                         from_addr = from,
                         peer = \<lparr>tcp_IP = IP from, tcp_Port = port\<rparr>,
                         infohash = ih,
                         infohashHex = EncodeToString ih\<rparr>)))"

text \<open>The \<open>select\<close> with \<open>default\<close> on the notifier, a channel of capacity 1.\<close>

definition notify :: "dht \<Rightarrow> dht" where
  "notify g =
     (if announcementNotifier g < 1 then g\<lparr>announcementNotifier := Suc (announcementNotifier g)\<rparr>
      else g)"

definition onAnnouncePeerQuery :: "runtime \<Rightarrow> dht \<Rightarrow> dict \<Rightarrow> UDPAddr \<Rightarrow> panic + dht" where
  "onAnnouncePeerQuery rt g d from =
     (if int (length (announcements g)) \<ge> maxAnnouncements g then Inr g
      else
        (case as_dict (d ''a'') of
           None \<Rightarrow> Inr g
         | Some a \<Rightarrow>
             (case as_string (a ''token'') of
                None \<Rightarrow> Inr g
              | Some token \<Rightarrow>
                  if \<not> validateToken rt g token from then Inr g
                  else
                    (case summarize d from of
                       None \<Rightarrow> Inr g
                     | Some ac \<Rightarrow>
                         Inr (notify (g\<lparr>announcements := announcements g @ [ac]\<rparr>))))))"

definition queryTypes ::
  "string \<Rightarrow> (runtime \<Rightarrow> dht \<Rightarrow> dict \<Rightarrow> UDPAddr \<Rightarrow> panic + dht) option" where
  "queryTypes = [''get_peers'' \<mapsto> onGetPeersQuery, ''announce_peer'' \<mapsto> onAnnouncePeerQuery]"

definition onQuery :: "runtime \<Rightarrow> dht \<Rightarrow> dict \<Rightarrow> UDPAddr \<Rightarrow> panic + dht" where
  "onQuery rt g d from =
     (case as_string (d ''t'') of
        None \<Rightarrow> Inr g
      | Some _ \<Rightarrow>
          (case as_string (d ''q'') of
             None \<Rightarrow> Inr g
           | Some q \<Rightarrow>
               (case queryTypes q of
                  None \<Rightarrow> Inr g
                | Some handle \<Rightarrow> handle rt g d from)))"

definition onMessage :: "runtime \<Rightarrow> dht \<Rightarrow> bytes \<Rightarrow> UDPAddr \<Rightarrow> panic + dht" where
  "onMessage rt g data from =
     (case bencode_Decode rt data of
        None \<Rightarrow> Inr g
      | Some d \<Rightarrow>
          (case as_string (d ''y'') of
             None \<Rightarrow> Inr g
           | Some y \<Rightarrow>
               if y = ''q'' then onQuery rt g d from
               else if y = ''r'' \<or> y = ''e'' then onReply rt g d from
               else Inr g))"

text \<open>
  \<open>listen\<close>, over the datagrams that \<open>ReadFromUDP\<close> returns before the read that
  fails and ends the loop. A panic in \<open>onMessage\<close> is not recovered anywhere: it ends
  the loop and the program.
\<close>

fun listen :: "runtime \<Rightarrow> dht \<Rightarrow> (bytes \<times> UDPAddr) list \<Rightarrow> panic + dht" where
  "listen rt g [] = Inr g"
| "listen rt g ((data, from) # reads) =
     (case onMessage rt g data from of
        Inl e \<Rightarrow> Inl e
      | Inr g' \<Rightarrow> listen rt g' reads)"

section \<open>Reference definitions\<close>

text \<open>
  What the specification says of the compact node list, of the hexadecimal form
  (\<open>DecodeString\<close> is the inverse that \<open>encoding/hex\<close> offers) and of the nodes a
  sequence of limiter verdicts lets through.
\<close>

definition dotted_decimal :: "bytes \<Rightarrow> string" where
  "dotted_decimal b =
     decimal (of_char (b ! 0)) @ ''.'' @ decimal (of_char (b ! 1)) @ ''.''
     @ decimal (of_char (b ! 2)) @ ''.'' @ decimal (of_char (b ! 3))"

definition big_endian16 :: "bytes \<Rightarrow> nat" where
  "big_endian16 b = 256 * of_char (b ! 0) + of_char (b ! 1)"

definition bytes_at :: "string \<Rightarrow> nat \<Rightarrow> nat \<Rightarrow> bytes" where
  "bytes_at s lo hi = take (hi - lo) (drop lo s)"

definition node_ref :: "string \<Rightarrow> nat \<Rightarrow> node" where
  "node_ref s i =
     \<lparr>addr = dotted_decimal (bytes_at s (26 * i + 20) (26 * i + 24)) @ '':''
             @ decimal (big_endian16 (bytes_at s (26 * i + 24) (26 * i + 26))),
      id_node = bytes_at s (26 * i) (26 * i + 20)\<rparr>"

definition decodeNodes_ref :: "string \<Rightarrow> node list" where
  "decodeNodes_ref s =
     (if length s mod 26 \<noteq> 0 then [] else map (node_ref s) [0..<length s div 26])"

definition fromHexChar :: "char \<Rightarrow> nat option" where
  "fromHexChar c =
     (let n = of_char c :: nat in
      if 48 \<le> n \<and> n \<le> 57 then Some (n - 48)
      else if 97 \<le> n \<and> n \<le> 102 then Some (n - 87)
      else if 65 \<le> n \<and> n \<le> 70 then Some (n - 55)
      else None)"

fun DecodeString :: "string \<Rightarrow> bytes option" where
  "DecodeString [] = Some []"
| "DecodeString [c] = None"
| "DecodeString (a # b # rest) =
     (case (fromHexChar a, fromHexChar b) of
        (Some x, Some y) \<Rightarrow> map_option ((#) (char_of (16 * x + y))) (DecodeString rest)
      | _ \<Rightarrow> None)"

fun allow_seq :: "limiter \<Rightarrow> int list \<Rightarrow> bool list" where
  "allow_seq lm [] = []"
| "allow_seq lm (t # ts) = (let (ok, lm') = Allow lm t in ok # allow_seq lm' ts)"

definition clock_readings :: "runtime \<Rightarrow> nat \<Rightarrow> nat \<Rightarrow> int list" where
  "clock_readings rt k n = map (time_Now rt) [k..<k + n]"

definition allowed :: "bool list \<Rightarrow> node list \<Rightarrow> node list" where
  "allowed oks ns = map snd (filter fst (zip oks ns))"

section \<open>Examples\<close>

text \<open>Concrete addresses, states, messages and runtimes, for the closed instances below.\<close>

definition example_from :: UDPAddr where
  "example_from = \<lparr>IP = [CHR 0x0A, CHR 0x00, CHR 0x00, CHR 0x01], Port = 6881, Zone = ''''\<rparr>"

definition example_dht :: dht where
  "example_dht =
     \<lparr>announcements = [],
      announcementNotifier = 0,
      chNode = [],
      localID = Slice ''LLLLLLLLLLLLLLLLLLLL'' [],
      conn = [],
      friendsLimiter = NewLimiter (PerInterval second) 1,
      maxAnnouncements = 10,
      secret = ''SSSSSSSSSSSSSSSSSSSS'',
      clock_reads = 0\<rparr>"

definition get_peers_query :: "string \<Rightarrow> dict" where
  "get_peers_query ident =
     [''t'' \<mapsto> BString ''aa'', ''y'' \<mapsto> BString ''q'', ''q'' \<mapsto> BString ''get_peers'',
      ''a'' \<mapsto> BDict [''id'' \<mapsto> BString ident]]"

definition announce_query :: "(string \<Rightarrow> bval option) \<Rightarrow> dict" where
  "announce_query a =
     [''t'' \<mapsto> BString ''aa'', ''y'' \<mapsto> BString ''q'', ''q'' \<mapsto> BString ''announce_peer'',
      ''a'' \<mapsto> BDict a]"

definition reply_message :: "string \<Rightarrow> dict" where
  "reply_message nodes =
     [''t'' \<mapsto> BString ''aa'', ''y'' \<mapsto> BString ''r'',
      ''r'' \<mapsto> BDict [''id'' \<mapsto> BString (replicate 20 (CHR ''n'')), ''nodes'' \<mapsto> BString nodes]]"

text \<open>
  A stand-in encoder: the bencoding of a reply of the shape \<open>onGetPeersQuery\<close> builds
  (the only message the handlers send), the empty datagram for anything else.
\<close>

definition bencode_string :: "string \<Rightarrow> bytes" where
  "bencode_string s = decimal (length s) @ '':'' @ s"

definition example_Encode :: "dict \<Rightarrow> bytes" where
  "example_Encode d =
     (case (as_string (d ''t''), as_dict (d ''r'')) of
        (Some t, Some r) \<Rightarrow>
          (case (as_string (r ''id''), as_string (r ''nodes''), as_string (r ''token'')) of
             (Some i, Some n, Some k) \<Rightarrow>
               ''d1:rd2:id'' @ bencode_string i @ ''5:nodes'' @ bencode_string n
               @ ''5:token'' @ bencode_string k @ ''e1:t'' @ bencode_string t @ ''1:y1:re''
           | _ \<Rightarrow> '''')
      | _ \<Rightarrow> '''')"

text \<open>
  A runtime for the examples: the decoder knows the datagrams of a table, the hash is a
  stand-in (the identity), \<open>[]byte(s)\<close> has no spare capacity.
\<close>

definition example_runtime :: "(bytes \<times> dict) list \<Rightarrow> (nat \<Rightarrow> int) \<Rightarrow> runtime" where
  "example_runtime table clock =
     \<lparr>bencode_Decode = map_of table,
      bencode_Encode = example_Encode,
      sha1_Sum = (\<lambda>b. b),
      bytes_spare = (\<lambda>s. ''''),
      time_Now = clock\<rparr>"

definition bogus_announce :: dict where
  "bogus_announce =
     announce_query [''id'' \<mapsto> BString ''aaaaaaaaaaaaaaaaaaaa'',
                     ''info_hash'' \<mapsto> BString ''hhhhhhhhhhhhhhhhhhhh'',
                     ''token'' \<mapsto> BString ''bogus'']"

definition bogus_datagram :: bytes where
  "bogus_datagram =
     ''d1:ad2:id20:aaaaaaaaaaaaaaaaaaaa9:info_hash20:hhhhhhhhhhhhhhhhhhhh5:token5:boguse1:q13:announce_peer1:t2:aa1:y1:qe''"

text \<open>The token the example engine hands to \<open>example_from\<close> under the stand-in hash.\<close>

definition example_token :: string where
  "example_token = [CHR 0x0A, CHR 0x00, CHR 0x00, CHR 0x01] @ ''SSSSSSSSSSSSSSSSSSSS''"

definition example_announce :: "string \<Rightarrow> (string \<times> bval) list \<Rightarrow> dict" where
  "example_announce ih ports =
     announce_query (map_of ([(''id'', BString ''aaaaaaaaaaaaaaaaaaaa''),
                              (''info_hash'', BString ih),
                              (''token'', BString example_token)] @ ports))"

definition announce_datagram :: "string \<Rightarrow> string \<Rightarrow> bytes" where
  "announce_datagram ih ports =
     ''d1:ad2:id20:aaaaaaaaaaaaaaaaaaaa'' @ ports @ ''9:info_hash'' @ decimal (length ih) @ '':''
     @ ih @ ''5:token24:'' @ example_token @ ''e1:q13:announce_peer1:t2:aa1:y1:qe''"

definition idAA :: string where
  "idAA = [CHR 0xAA, CHR 0xAA, CHR 0xAA, CHR 0xAA, CHR 0xAA, CHR 0xAA, CHR 0xAA, CHR 0xAA,
           CHR 0xAA, CHR 0xAA, CHR 0xAA, CHR 0xAA, CHR 0xAA, CHR 0xAA, CHR 0xAA, CHR 0xAA,
           CHR 0xAA, CHR 0xAA, CHR 0xAA, CHR 0xAA]"

definition get_peers_datagram :: "string \<Rightarrow> bytes" where
  "get_peers_datagram ident =
     ''d1:ad2:id'' @ decimal (length ident) @ '':'' @ ident @ ''e1:q9:get_peers1:t2:aa1:y1:qe''"

definition one_node :: string where
  "one_node = ''aaaaaaaaaaaaaaaaaaaa'' @ [CHR 0x01, CHR 0x02, CHR 0x03, CHR 0x04, CHR 0x1A, CHR 0xE1]"

definition hash11 :: bytes where
  "hash11 = [CHR 0x11, CHR 0x11, CHR 0x11, CHR 0x11, CHR 0x11, CHR 0x11, CHR 0x11, CHR 0x11,
             CHR 0x11, CHR 0x11, CHR 0x11, CHR 0x11, CHR 0x11, CHR 0x11, CHR 0x11, CHR 0x11,
             CHR 0x11, CHR 0x11, CHR 0x11, CHR 0x11]"

definition two_nodes :: string where
  "two_nodes =
     ''aaaaaaaaaaaaaaaaaaaa'' @ [CHR 0x01, CHR 0x02, CHR 0x03, CHR 0x04, CHR 0x1A, CHR 0xE1]
     @ ''bbbbbbbbbbbbbbbbbbbb'' @ [CHR 0x05, CHR 0x06, CHR 0x07, CHR 0x08, CHR 0x1A, CHR 0xE1]"

text \<open>A clock that has advanced by one second at every reading.\<close>

definition slow_clock :: "nat \<Rightarrow> int" where
  "slow_clock k = int k * second"

definition id15 :: string where
  "id15 = ''aaaaaaaaaaaaaaa''"

text \<open>The same runtime, but \<open>[]byte(s)\<close> has capacity 32 for a short \<open>s\<close>, the rest zero.\<close>

definition roomy :: "runtime \<Rightarrow> runtime" where
  "roomy rt = rt\<lparr>bytes_spare := \<lambda>s. replicate (32 - length s) (CHR 0x00)\<rparr>"

section \<open>neighborID\<close>

lemma neighborID_total:
  assumes "closeness \<le> cap target" and "closeness \<le> len local"
  shows "\<exists>r. neighborID target local = Inr r \<and> len r = 20"
proof -
  have "15 \<le> length (elems target @ spare target)"
    using assms(1) by (simp add: cap_def closeness_def)
  then have a: "length (take 15 (elems target @ spare target)) = 15" by simp
  show ?thesis
    using assms a
    unfolding neighborID_def slice_to_def slice_from_def copy_range_def make_bytes_def
      len_def cap_def closeness_def Let_def
    by simp
qed

lemma neighborID_20:
  assumes "len target = 20" and "len local = 20"
  shows "\<exists>r. neighborID target local = Inr r \<and> len r = 20
           \<and> take 15 (elems r) = take 15 (elems target)
           \<and> drop 15 (elems r) = drop 15 (elems local)"
  using assms
  unfolding neighborID_def slice_to_def slice_from_def copy_range_def make_bytes_def
    len_def cap_def closeness_def Let_def
  by simp

text \<open>
  C9. For all 20-byte inputs \<open>target\<close> and \<open>local\<close>, \<open>neighborID target local\<close> returns
  (without panic) a 20-byte id whose first 15 bytes are the first 15 bytes of \<open>target\<close>
  and whose last 5 bytes are the last 5 bytes of \<open>local\<close>.
\<close>

theorem neighborID_prefix_suffix:
  assumes "len target = 20" and "len local = 20"
  shows "\<exists>r. neighborID target local = Inr r \<and> len r = 20
           \<and> take 15 (elems r) = take 15 (elems target)
           \<and> drop 15 (elems r) = drop 15 (elems local)"
  using assms
  unfolding neighborID_def slice_to_def slice_from_def copy_range_def make_bytes_def
    len_def cap_def closeness_def Let_def
  by simp

theorem neighborID_prefix_suffix_witness:
  "len (Slice (replicate 20 (CHR ''a'')) []) = 20
   \<and> len (Slice (replicate 20 (CHR ''b'')) []) = 20
   \<and> (\<exists>r. neighborID (Slice (replicate 20 (CHR ''a'')) []) (Slice (replicate 20 (CHR ''b'')) [])
              = Inr r \<and> len r = 20
           \<and> take 15 (elems r) = take 15 (elems (Slice (replicate 20 (CHR ''a'')) []))
           \<and> drop 15 (elems r) = drop 15 (elems (Slice (replicate 20 (CHR ''b'')) [])))"
  using neighborID_prefix_suffix
          [of "Slice (replicate 20 (CHR ''a'')) []" "Slice (replicate 20 (CHR ''b'')) []"]
  by (simp add: len_def)

section \<open>decodeNodes against its reference\<close>

declare decimal.simps [simp del]
declare decodeNodes_loop.simps [simp del]

lemma substr_bytes_at:
  assumes "lo \<le> hi" and "hi \<le> length s"
  shows "substr s lo hi = Inr (bytes_at s lo hi)"
  using assms by (simp add: substr_def bytes_at_def)

lemma bytes_at_len: "hi \<le> length s \<Longrightarrow> length (bytes_at s lo hi) = hi - lo"
  by (simp add: bytes_at_def)

lemma or_shift_nat:
  fixes h l :: nat
  assumes "l < 256"
  shows "l OR push_bit 8 h = 256 * h + l"
proof -
  have l: "take_bit 8 l = l" using assms by (simp add: take_bit_nat_eq_self_iff)
  have "take_bit 8 l AND push_bit 8 h = 0"
    by (auto simp: bit_eq_iff bit_simps)
  then have "l AND push_bit 8 h = 0" by (simp add: l)
  then have "l + push_bit 8 h = l OR push_bit 8 h" by (rule disjunctive_add_eq_or)
  then show ?thesis by (simp add: push_bit_eq_mult)
qed

lemma uint16_or_shift:
  fixes h l :: char
  shows "uint (of_nat (of_char l) OR push_bit 8 (of_nat (of_char h)) :: 16 word)
           = int (256 * of_char h + of_char l)"
proof -
  let ?l = "of_char l :: nat" and ?h = "of_char h :: nat"
  have lt: "?l < 256" "?h < 256" by simp_all
  have "(of_nat ?l OR push_bit 8 (of_nat ?h) :: 16 word) = of_nat (?l OR push_bit 8 ?h)"
    by (simp add: of_nat_or_eq of_nat_push_bit)
  also have "\<dots> = of_nat (256 * ?h + ?l)" by (simp only: or_shift_nat [OF lt(1)])
  finally have "uint (of_nat ?l OR push_bit 8 (of_nat ?h) :: 16 word)
                  = uint (of_nat (256 * ?h + ?l) :: 16 word)" by simp
  also have "\<dots> = int (256 * ?h + ?l)"
  proof -
    have "256 * ?h + ?l < 65536" using lt by linarith
    then have "256 * ?h + ?l < 2 ^ 16" by simp
    then show ?thesis by (simp add: uint_nat unat_of_nat take_bit_nat_eq_self del: of_nat_add of_nat_mult)
  qed
  finally show ?thesis .
qed

lemma IP_String_4:
  assumes "length b = 4"
  shows "IP_String b = Inr (dotted_decimal b)"
proof -
  obtain x0 x1 x2 x3 where "b = [x0, x1, x2, x3]"
    using assms by (auto simp: numeral_eq_Suc length_Suc_conv)
  then show ?thesis by (simp add: dotted_decimal_def)
qed

lemma Uint16_2:
  assumes "length b = 2"
  shows "\<exists>w. Uint16 b = Inr w \<and> Itoa (uint w) = decimal (big_endian16 b)"
proof -
  let ?w = "of_nat (of_char (b ! 1)) OR push_bit 8 (of_nat (of_char (b ! 0))) :: 16 word"
  have u: "uint ?w = int (big_endian16 b)"
    unfolding big_endian16_def by (rule uint16_or_shift)
  have "Uint16 b = Inr ?w" using assms by (simp add: Uint16_def)
  moreover have "Itoa (uint ?w) = decimal (big_endian16 b)"
    unfolding u Itoa_def by simp
  ultimately show ?thesis by blast
qed

lemma decodeNodes_loop_step:
  assumes "26 * k + 26 \<le> length s"
  shows "decodeNodes_loop s (26 * k) acc
           = decodeNodes_loop s (26 * k + 26) (acc @ [node_ref s k])"
proof -
  have a: "substr s (26 * k) (26 * k + 20) = Inr (bytes_at s (26 * k) (26 * k + 20))"
    using assms by (intro substr_bytes_at) simp_all
  have b: "substr s (26 * k + 20) (26 * k + 24) = Inr (bytes_at s (26 * k + 20) (26 * k + 24))"
    using assms by (intro substr_bytes_at) simp_all
  have c: "substr s (26 * k + 24) (26 * k + 26) = Inr (bytes_at s (26 * k + 24) (26 * k + 26))"
    using assms by (intro substr_bytes_at) simp_all
  have d: "IP_String (bytes_at s (26 * k + 20) (26 * k + 24))
             = Inr (dotted_decimal (bytes_at s (26 * k + 20) (26 * k + 24)))"
    by (rule IP_String_4) (use assms in \<open>simp add: bytes_at_len\<close>)
  obtain w where e: "Uint16 (bytes_at s (26 * k + 24) (26 * k + 26)) = Inr w"
    and f: "Itoa (uint w) = decimal (big_endian16 (bytes_at s (26 * k + 24) (26 * k + 26)))"
    using Uint16_2 [of "bytes_at s (26 * k + 24) (26 * k + 26)"] assms
    by (auto simp: bytes_at_len)
  have lt: "26 * k < length s" using assms by simp
  show ?thesis
    by (subst decodeNodes_loop.simps) (simp add: lt a b c d e f node_ref_def)
qed

lemma decodeNodes_loop_ref:
  assumes "length s = 26 * n" and "k \<le> n"
  shows "decodeNodes_loop s (26 * k) acc = Inr (acc @ map (node_ref s) [k..<n])"
  using assms(2)
proof (induction "n - k" arbitrary: k acc)
  case 0
  then have "k = n" by simp
  then show ?case using assms(1) by (subst decodeNodes_loop.simps) simp
next
  case (Suc m)
  then have lt: "k < n" by simp
  then have le: "26 * k + 26 \<le> length s" using assms(1) by simp
  have "decodeNodes_loop s (26 * k) acc
          = decodeNodes_loop s (26 * Suc k) (acc @ [node_ref s k])"
    using decodeNodes_loop_step [OF le] by (simp add: add.commute)
  also have "\<dots> = Inr ((acc @ [node_ref s k]) @ map (node_ref s) [Suc k..<n])"
    using Suc lt by (intro Suc.hyps(1)) simp_all
  also have "\<dots> = Inr (acc @ map (node_ref s) [k..<n])"
    using lt by (simp add: upt_conv_Cons)
  finally show ?case .
qed

lemma decodeNodes_eq_ref:
  "decodeNodes s = Inr (decodeNodes_ref s)"
proof (cases "length s mod 26 = 0")
  case False
  then show ?thesis by (simp add: decodeNodes_def decodeNodes_ref_def)
next
  case True
  then have "26 dvd length s" by (simp add: mod_eq_0_iff_dvd)
  then have len: "length s = 26 * (length s div 26)" by simp
  have "decodeNodes_loop s (26 * 0) [] = Inr ([] @ map (node_ref s) [0..<length s div 26])"
    by (rule decodeNodes_loop_ref [OF len]) simp
  then show ?thesis using True by (simp add: decodeNodes_def decodeNodes_ref_def)
qed

lemma decodeNodes_ref_length:
  "length s mod 26 = 0 \<Longrightarrow> length (decodeNodes_ref s) = length s div 26"
  by (simp add: decodeNodes_ref_def)

lemma node_ref_one: "node_ref one_node 0 = \<lparr>addr = ''1.2.3.4:6881'', id_node = ''aaaaaaaaaaaaaaaaaaaa''\<rparr>"
  by (simp add: node_ref_def bytes_at_def dotted_decimal_def big_endian16_def one_node_def
      decimal.simps digit_def)

lemma node_ref_two:
  "node_ref two_nodes 0 = \<lparr>addr = ''1.2.3.4:6881'', id_node = ''aaaaaaaaaaaaaaaaaaaa''\<rparr>"
  "node_ref two_nodes (Suc 0) = \<lparr>addr = ''5.6.7.8:6881'', id_node = ''bbbbbbbbbbbbbbbbbbbb''\<rparr>"
  by (simp_all add: node_ref_def bytes_at_def dotted_decimal_def big_endian16_def two_nodes_def
      decimal.simps digit_def)

text \<open>
  C4. \<open>decodeNodes\<close> never panics and returns what the reference definition says: the
  empty list when the length of \<open>s\<close> is no multiple of 26, and otherwise
  \<open>length s div 26\<close> nodes, the \<open>i\<close>-th with the id of bytes \<open>[26i, 26i+20)\<close> and the
  address made of the dotted decimal of bytes \<open>[26i+20, 26i+24)\<close>, a colon and the decimal
  of the big-endian 16-bit number in bytes \<open>[26i+24, 26i+26)\<close>.
\<close>

theorem decodeNodes_matches_reference:
  "decodeNodes s = Inr (decodeNodes_ref s)
   \<and> (length s mod 26 \<noteq> 0 \<longrightarrow> decodeNodes_ref s = [])
   \<and> (length s mod 26 = 0
        \<longrightarrow> length (decodeNodes_ref s) = length s div 26
            \<and> (\<forall>i < length s div 26.
                  id_node (decodeNodes_ref s ! i) = bytes_at s (26 * i) (26 * i + 20)
                  \<and> addr (decodeNodes_ref s ! i)
                      = dotted_decimal (bytes_at s (26 * i + 20) (26 * i + 24)) @ '':''
                        @ decimal (big_endian16 (bytes_at s (26 * i + 24) (26 * i + 26)))))"
  by (simp add: decodeNodes_eq_ref decodeNodes_ref_def node_ref_def)

theorem decodeNodes_matches_reference_witness:
  "decodeNodes one_node = Inr [\<lparr>addr = ''1.2.3.4:6881'', id_node = ''aaaaaaaaaaaaaaaaaaaa''\<rparr>]
   \<and> length one_node = 26
   \<and> decodeNodes (one_node @ ''x'') = Inr []"
proof -
  have l: "length one_node = 26" "length (one_node @ ''x'') = 27" by (simp_all add: one_node_def)
  have "decodeNodes_ref one_node = [node_ref one_node 0]"
    using l by (simp add: decodeNodes_ref_def)
  then show ?thesis
    using decodeNodes_matches_reference [of one_node]
      decodeNodes_matches_reference [of "one_node @ ''x''"] l
    by (simp add: node_ref_one)
qed

section \<open>Hexadecimal encoding\<close>

lemma hextable_nth:
  assumes "n < 16"
  shows "fromHexChar (hextable ! n) = Some n \<and> hextable ! n \<in> set ''0123456789abcdef''"
proof -
  have "n \<in> {0, 1, 2, 3, 4, 5, 6, 7, 8, 9, 10, 11, 12, 13, 14, 15}"
    using assms by (simp only: insert_iff empty_iff) arith
  then show ?thesis
    by (elim insertE emptyE) (simp_all add: hextable_def fromHexChar_def)
qed

lemma char_of_div_mod: "char_of (16 * (of_char v div 16) + of_char v mod 16 :: nat) = v"
  by simp

lemma DecodeString_EncodeToString: "DecodeString (EncodeToString b) = Some b"
proof (induction b)
  case Nil
  show ?case by simp
next
  case (Cons v vs)
  have hi: "fromHexChar (hextable ! (of_char v div 16)) = Some (of_char v div 16)"
    by (intro hextable_nth [THEN conjunct1]) (simp add: less_mult_imp_div_less)
  have lo: "fromHexChar (hextable ! (of_char v mod 16)) = Some (of_char v mod 16)"
    by (intro hextable_nth [THEN conjunct1]) simp
  show ?case by (simp add: hi lo Cons.IH del: char_of_nat)
qed

lemma EncodeToString_lowercase: "set (EncodeToString b) \<subseteq> set ''0123456789abcdef''"
proof (induction b)
  case Nil
  show ?case by simp
next
  case (Cons v vs)
  define S where "S = set ''0123456789abcdef''"
  have hi: "hextable ! (of_char v div 16) \<in> S"
    unfolding S_def by (intro hextable_nth [THEN conjunct2]) (simp add: less_mult_imp_div_less)
  have lo: "hextable ! (of_char v mod 16) \<in> S"
    unfolding S_def by (intro hextable_nth [THEN conjunct2]) simp
  have "set (EncodeToString vs) \<subseteq> S" using Cons.IH by (simp only: S_def)
  then have "set (EncodeToString (v # vs)) \<subseteq> S" using hi lo by simp
  then show ?case by (simp only: S_def)
qed

lemma EncodeToString_length: "length (EncodeToString b) = 2 * length b"
  by (induction b) simp_all

section \<open>Tokens\<close>

text \<open>
  C6. A token validates at the address, and under the secret, it was generated for; a
  token is a function of the source IP and the secret alone; and a token generated for
  another address or under another secret is refused whenever it differs from the one
  of this address and secret, that is, whenever the two hash values differ.
\<close>

theorem token_round_trip:
  "validateToken rt g (genToken rt g from) from
   \<and> (IP from' = IP from \<and> secret g' = secret g
        \<longrightarrow> genToken rt g' from' = genToken rt g from)
   \<and> (genToken rt g' from' \<noteq> genToken rt g from
        \<longrightarrow> \<not> validateToken rt g (genToken rt g' from') from)"
  by (simp add: validateToken_def genToken_def)

theorem token_round_trip_witness:
  "validateToken (example_runtime [] (\<lambda>k. 0)) example_dht
     (genToken (example_runtime [] (\<lambda>k. 0)) example_dht example_from) example_from
   \<and> genToken (example_runtime [] (\<lambda>k. 0)) (example_dht\<lparr>secret := ''other secret''\<rparr>) example_from
       \<noteq> genToken (example_runtime [] (\<lambda>k. 0)) example_dht example_from
   \<and> \<not> validateToken (example_runtime [] (\<lambda>k. 0)) example_dht
         (genToken (example_runtime [] (\<lambda>k. 0)) (example_dht\<lparr>secret := ''other secret''\<rparr>)
            example_from)
         example_from
   \<and> genToken (example_runtime [] (\<lambda>k. 0)) (example_dht\<lparr>conn := [('''', example_from)]\<rparr>)
         (example_from\<lparr>Port := 1\<rparr>)
       = genToken (example_runtime [] (\<lambda>k. 0)) example_dht example_from"
  using token_round_trip [of "example_runtime [] (\<lambda>k. 0)" example_dht example_from
      example_from "example_dht\<lparr>secret := ''other secret''\<rparr>"]
    token_round_trip [of "example_runtime [] (\<lambda>k. 0)" example_dht example_from
      "example_from\<lparr>Port := 1\<rparr>" "example_dht\<lparr>conn := [('''', example_from)]\<rparr>"]
  by (simp add: validateToken_def genToken_def example_runtime_def example_dht_def
      example_from_def)

section \<open>Dispatch and what each handler leaves unchanged\<close>

lemma onAnnouncePeerQuery_bad_token:
  assumes "\<forall>a. as_dict (d ''a'') = Some a
             \<longrightarrow> as_string (a ''token'') \<noteq> Some (genToken rt g from)"
  shows "onAnnouncePeerQuery rt g d from = Inr g"
  using assms
  by (auto simp: onAnnouncePeerQuery_def validateToken_def split: option.splits)

lemma onQuery_announce:
  assumes "as_string (d ''q'') = Some ''announce_peer''"
  shows "onQuery rt g d from
           = (case as_string (d ''t'') of None \<Rightarrow> Inr g
              | Some t \<Rightarrow> onAnnouncePeerQuery rt g d from)"
  using assms by (simp add: onQuery_def queryTypes_def split: option.splits)

lemma onQuery_get_peers:
  assumes "as_string (d ''q'') = Some ''get_peers''" and "as_string (d ''t'') = Some tid"
  shows "onQuery rt g d from = onGetPeersQuery rt g d from"
  using assms by (simp add: onQuery_def queryTypes_def)

lemma onMessage_query:
  assumes "bencode_Decode rt data = Some d" and "as_string (d ''y'') = Some ''q''"
  shows "onMessage rt g data from = onQuery rt g d from"
  using assms by (simp add: onMessage_def)

lemma notify_fields:
  "announcements (notify g) = announcements g"
  "maxAnnouncements (notify g) = maxAnnouncements g"
  "conn (notify g) = conn g"
  "chNode (notify g) = chNode g"
  by (simp_all add: notify_def)

lemma onAnnouncePeerQuery_full:
  assumes "maxAnnouncements g \<le> int (length (announcements g))"
  shows "onAnnouncePeerQuery rt g d from = Inr g"
  using assms by (simp add: onAnnouncePeerQuery_def)

lemma onAnnouncePeerQuery_cases:
  "onAnnouncePeerQuery rt g d from = Inr g
   \<or> (\<exists>ac. int (length (announcements g)) < maxAnnouncements g
            \<and> summarize d from = Some ac
            \<and> onAnnouncePeerQuery rt g d from
                = Inr (notify (g\<lparr>announcements := announcements g @ [ac]\<rparr>)))"
  by (simp add: onAnnouncePeerQuery_def split: option.splits)

lemma onAnnouncePeerQuery_inv:
  assumes "onAnnouncePeerQuery rt g d from = Inr g'"
    and "int (length (announcements g)) \<le> maxAnnouncements g"
  shows "int (length (announcements g')) \<le> maxAnnouncements g'
         \<and> maxAnnouncements g' = maxAnnouncements g"
  using onAnnouncePeerQuery_cases [of rt g d "from"] assms
  by (auto simp: notify_fields)

lemma send_fields:
  "announcements (send rt g d to) = announcements g"
  "maxAnnouncements (send rt g d to) = maxAnnouncements g"
  "chNode (send rt g d to) = chNode g"
  "announcementNotifier (send rt g d to) = announcementNotifier g"
  by (simp_all add: send_def)

lemma onGetPeersQuery_fields:
  assumes "onGetPeersQuery rt g d from = Inr g'"
  shows "announcements g' = announcements g \<and> maxAnnouncements g' = maxAnnouncements g
         \<and> announcementNotifier g' = announcementNotifier g \<and> chNode g' = chNode g"
  using assms
  by (auto simp: onGetPeersQuery_def send_fields split: option.splits sum.splits)

lemma friendsLimiter_Allow_fields:
  assumes "friendsLimiter_Allow rt g = (ok, g1)"
  shows "announcements g1 = announcements g \<and> maxAnnouncements g1 = maxAnnouncements g
         \<and> announcementNotifier g1 = announcementNotifier g \<and> chNode g1 = chNode g
         \<and> conn g1 = conn g \<and> clock_reads g1 = Suc (clock_reads g)
         \<and> (ok, friendsLimiter g1) = Allow (friendsLimiter g) (time_Now rt (clock_reads g))"
  using assms by (auto simp: friendsLimiter_Allow_def split: prod.splits)

lemma onReply_loop_fields:
  "announcements (onReply_loop rt g ns) = announcements g
   \<and> maxAnnouncements (onReply_loop rt g ns) = maxAnnouncements g
   \<and> announcementNotifier (onReply_loop rt g ns) = announcementNotifier g
   \<and> conn (onReply_loop rt g ns) = conn g
   \<and> clock_reads (onReply_loop rt g ns) = clock_reads g + length ns"
proof (induction ns arbitrary: g)
  case Nil
  show ?case by simp
next
  case (Cons n ns)
  obtain ok g1 where a: "friendsLimiter_Allow rt g = (ok, g1)" by (cases "friendsLimiter_Allow rt g")
  note f = friendsLimiter_Allow_fields [OF a]
  show ?case
  proof (cases ok)
    case True
    then have "onReply_loop rt g (n # ns) = onReply_loop rt (g1\<lparr>chNode := chNode g1 @ [n]\<rparr>) ns"
      using a by simp
    then show ?thesis using Cons.IH [of "g1\<lparr>chNode := chNode g1 @ [n]\<rparr>"] f by simp
  next
    case False
    then have "onReply_loop rt g (n # ns) = onReply_loop rt g1 ns" using a by simp
    then show ?thesis using Cons.IH [of g1] f by simp
  qed
qed

lemma onReply_cases:
  "onReply rt g d from = Inr g
   \<or> (\<exists>r s. as_dict (d ''r'') = Some r \<and> as_string (r ''nodes'') = Some s
          \<and> onReply rt g d from = Inr (onReply_loop rt g (decodeNodes_ref s)))"
  by (simp add: onReply_def decodeNodes_eq_ref split: option.splits)

lemma onReply_inv:
  assumes "onReply rt g d from = Inr g'"
  shows "announcements g' = announcements g \<and> maxAnnouncements g' = maxAnnouncements g
         \<and> announcementNotifier g' = announcementNotifier g \<and> conn g' = conn g"
  using onReply_cases [of rt g d "from"] assms onReply_loop_fields by auto

lemma queryTypes_cases:
  "queryTypes q = (if q = ''announce_peer'' then Some onAnnouncePeerQuery
                   else if q = ''get_peers'' then Some onGetPeersQuery else None)"
  unfolding queryTypes_def by simp

lemma onQuery_cases:
  "onQuery rt g d from = Inr g
   \<or> (\<exists>tid. as_string (d ''t'') = Some tid) \<and> as_string (d ''q'') = Some ''get_peers''
       \<and> onQuery rt g d from = onGetPeersQuery rt g d from
   \<or> (\<exists>tid. as_string (d ''t'') = Some tid) \<and> as_string (d ''q'') = Some ''announce_peer''
       \<and> onQuery rt g d from = onAnnouncePeerQuery rt g d from"
proof (cases "as_string (d ''t'')")
  case None
  then show ?thesis by (simp add: onQuery_def)
next
  case t: (Some tid)
  show ?thesis
  proof (cases "as_string (d ''q'')")
    case None
    then show ?thesis by (simp add: onQuery_def t)
  next
    case q: (Some q)
    consider "q = ''announce_peer''" | "q = ''get_peers''"
      | "q \<noteq> ''announce_peer''" "q \<noteq> ''get_peers''" by blast
    then show ?thesis
    proof cases
      case 1
      then show ?thesis by (simp add: onQuery_def t q queryTypes_cases)
    next
      case 2
      then show ?thesis by (simp add: onQuery_def t q queryTypes_cases)
    next
      case 3
      then show ?thesis by (simp add: onQuery_def t q queryTypes_cases)
    qed
  qed
qed

lemma onQuery_inv:
  assumes "onQuery rt g d from = Inr g'"
    and "int (length (announcements g)) \<le> maxAnnouncements g"
  shows "int (length (announcements g')) \<le> maxAnnouncements g'
         \<and> maxAnnouncements g' = maxAnnouncements g"
proof -
  consider "g' = g" | "onGetPeersQuery rt g d from = Inr g'"
    | "onAnnouncePeerQuery rt g d from = Inr g'"
    using assms(1) onQuery_cases [of rt g d "from"] by auto
  then show ?thesis
  proof cases
    case 1
    then show ?thesis using assms(2) by simp
  next
    case 2
    then show ?thesis using onGetPeersQuery_fields [OF 2] assms(2) by simp
  next
    case 3
    then show ?thesis using onAnnouncePeerQuery_inv [OF 3 assms(2)] by simp
  qed
qed

lemma onMessage_cases:
  "onMessage rt g data from = Inr g
   \<or> (\<exists>d. bencode_Decode rt data = Some d \<and> as_string (d ''y'') = Some ''q''
          \<and> onMessage rt g data from = onQuery rt g d from)
   \<or> (\<exists>d. bencode_Decode rt data = Some d
          \<and> (as_string (d ''y'') = Some ''r'' \<or> as_string (d ''y'') = Some ''e'')
          \<and> onMessage rt g data from = onReply rt g d from)"
proof (cases "bencode_Decode rt data")
  case None
  then show ?thesis by (simp add: onMessage_def)
next
  case d: (Some d)
  show ?thesis
  proof (cases "as_string (d ''y'')")
    case None
    then show ?thesis by (simp add: onMessage_def d)
  next
    case y: (Some y)
    consider "y = ''q''" | "y \<noteq> ''q''" "y = ''r'' \<or> y = ''e''"
      | "y \<noteq> ''q''" "\<not> (y = ''r'' \<or> y = ''e'')" by blast
    then show ?thesis
    proof cases
      case 1
      then show ?thesis by (simp add: onMessage_def d y)
    next
      case 2
      have "onMessage rt g data from = onReply rt g d from"
        using 2 by (simp only: onMessage_def d y option.case if_False if_True)
      then show ?thesis using 2(2) d y by blast
    next
      case 3
      have "onMessage rt g data from = Inr g"
        using 3 by (simp only: onMessage_def d y option.case if_False)
      then show ?thesis by blast
    qed
  qed
qed

lemma onMessage_inv:
  assumes "onMessage rt g data from = Inr g'"
    and "int (length (announcements g)) \<le> maxAnnouncements g"
  shows "int (length (announcements g')) \<le> maxAnnouncements g'
         \<and> maxAnnouncements g' = maxAnnouncements g"
proof -
  consider "g' = g" | d where "onQuery rt g d from = Inr g'"
    | d where "onReply rt g d from = Inr g'"
    using assms(1) onMessage_cases [of rt g data "from"] by auto
  then show ?thesis
  proof cases
    case 1
    then show ?thesis using assms(2) by simp
  next
    case 2
    then show ?thesis using onQuery_inv [OF 2 assms(2)] by simp
  next
    case 3
    then show ?thesis using onReply_inv [OF 3] assms(2) by simp
  qed
qed

lemma listen_inv:
  assumes "listen rt g reads = Inr g'"
    and "int (length (announcements g)) \<le> maxAnnouncements g"
  shows "int (length (announcements g')) \<le> maxAnnouncements g'
         \<and> maxAnnouncements g' = maxAnnouncements g"
  using assms
proof (induction reads arbitrary: g)
  case Nil
  then show ?case by simp
next
  case (Cons r reads)
  obtain data src where r: "r = (data, src)" by (cases r)
  from Cons.prems(1) obtain g1 where m: "onMessage rt g data src = Inr g1"
    and l: "listen rt g1 reads = Inr g'"
    by (auto simp: r split: sum.splits)
  from onMessage_inv [OF m Cons.prems(2)] Cons.IH [OF l] show ?case by simp
qed

lemma newDHT_fields:
  assumes "newDHT ok r1 r2 n = Inr (Some g)" and "0 \<le> n" and "n \<le> 922337203685477580"
  shows "announcements g = [] \<and> maxAnnouncements g = 10 * n \<and> localID g = Slice r1 []
         \<and> secret g = r2 \<and> burst (friendsLimiter g) = n"
proof -
  have "- (2 ^ 63) \<le> n * 10 \<and> n * 10 < (2 ^ 63 :: int)" using assms(2,3) by simp
  then have "wrap64 (n * 10) = n * 10"
    unfolding wrap64_def by (simp only: signed_take_bit_int_eq_self_iff)
  then show ?thesis
    using assms(1)
    by (auto simp: newDHT_def NewLimiter_def split: if_splits sum.splits)
qed

section \<open>announce_peer: token and capacity\<close>

text \<open>
  C2. An announcement is stored only for a query whose \<open>a.token\<close> is the string
  \<open>genToken\<close> of the source address: when \<open>a\<close> is missing or no dictionary, or \<open>a.token\<close>
  is missing, no string or another string, the handler (and \<open>onMessage\<close> on such a
  datagram) returns the state as it was: same announcement list, no notification. The
  token depends on the source IP and the secret only.
\<close>

theorem announce_requires_valid_token:
  assumes "\<forall>a. as_dict (d ''a'') = Some a
             \<longrightarrow> as_string (a ''token'') \<noteq> Some (genToken rt g from)"
  shows "onAnnouncePeerQuery rt g d from = Inr g
         \<and> (bencode_Decode rt data = Some d \<and> as_string (d ''y'') = Some ''q''
              \<and> as_string (d ''q'') = Some ''announce_peer''
              \<longrightarrow> onMessage rt g data from = Inr g)
         \<and> (IP from' = IP from \<and> secret g' = secret g
              \<longrightarrow> genToken rt g' from' = genToken rt g from)"
proof -
  have a: "onAnnouncePeerQuery rt g d from = Inr g"
    using assms by (rule onAnnouncePeerQuery_bad_token)
  have "onMessage rt g data from = Inr g"
    if "bencode_Decode rt data = Some d" "as_string (d ''y'') = Some ''q''"
      "as_string (d ''q'') = Some ''announce_peer''"
    using that a by (simp add: onMessage_query onQuery_announce split: option.splits)
  moreover have "genToken rt g' from' = genToken rt g from"
    if "IP from' = IP from" "secret g' = secret g"
    using that by (simp add: genToken_def)
  ultimately show ?thesis using a by blast
qed

theorem announce_requires_valid_token_witness:
  "onAnnouncePeerQuery (example_runtime [(bogus_datagram, bogus_announce)] (\<lambda>k. 0))
     example_dht bogus_announce example_from = Inr example_dht
   \<and> onMessage (example_runtime [(bogus_datagram, bogus_announce)] (\<lambda>k. 0))
       example_dht bogus_datagram example_from = Inr example_dht
   \<and> genToken (example_runtime [(bogus_datagram, bogus_announce)] (\<lambda>k. 0))
       example_dht example_from \<noteq> ''bogus''"
  using announce_requires_valid_token
    [of bogus_announce "example_runtime [(bogus_datagram, bogus_announce)] (\<lambda>k. 0)"
      example_dht example_from bogus_datagram example_from example_dht]
  by (simp add: bogus_announce_def announce_query_def example_runtime_def genToken_def
      example_dht_def example_from_def)

text \<open>
  C3. While the list holds \<open>maxAnnouncements\<close> entries or more, \<open>onAnnouncePeerQuery\<close>
  returns the state as it was (nothing stored, nothing evicted, no channel operation).
  So it keeps the length at or below \<open>maxAnnouncements\<close>, and so does every run of the
  read loop from the state \<open>newDHT\<close> builds, where \<open>maxAnnouncements\<close> is 10 times
  \<open>maxFriendsPerSec\<close> (for the values whose tenfold fits a 64-bit \<open>int\<close>).
\<close>

theorem announcement_store_bounded:
  "(maxAnnouncements g \<le> int (length (announcements g))
      \<longrightarrow> onAnnouncePeerQuery rt g d from = Inr g)
   \<and> (onAnnouncePeerQuery rt g d from = Inr g1
        \<and> int (length (announcements g)) \<le> maxAnnouncements g
      \<longrightarrow> int (length (announcements g1)) \<le> maxAnnouncements g1
          \<and> maxAnnouncements g1 = maxAnnouncements g)
   \<and> (newDHT ok r1 r2 n = Inr (Some g0) \<and> 0 \<le> n \<and> n \<le> 922337203685477580
        \<and> listen rt g0 reads = Inr g2
      \<longrightarrow> maxAnnouncements g2 = 10 * n \<and> int (length (announcements g2)) \<le> 10 * n)"
proof -
  have c: "maxAnnouncements g2 = 10 * n \<and> int (length (announcements g2)) \<le> 10 * n"
    if "newDHT ok r1 r2 n = Inr (Some g0)" "0 \<le> n" "n \<le> 922337203685477580"
      "listen rt g0 reads = Inr g2"
  proof -
    from newDHT_fields [OF that(1,2,3)]
    have "announcements g0 = []" "maxAnnouncements g0 = 10 * n" by simp_all
    then have "int (length (announcements g0)) \<le> maxAnnouncements g0" using that(2) by simp
    from listen_inv [OF that(4) this] \<open>maxAnnouncements g0 = 10 * n\<close>
    show ?thesis by simp
  qed
  show ?thesis
    using onAnnouncePeerQuery_full [of g rt d "from"]
      onAnnouncePeerQuery_inv [of rt g d "from" g1] c
    by blast
qed

lemma example_token_valid:
  "genToken (example_runtime t c) example_dht example_from = example_token"
  by (simp add: genToken_def example_runtime_def example_dht_def example_from_def
      example_token_def)

lemma summarize_example:
  "summarize (example_announce ih []) example_from
     = Some \<lparr>raw = example_announce ih [], from_addr = example_from,
             peer = \<lparr>tcp_IP = IP example_from, tcp_Port = 6881\<rparr>,
             infohash = ih, infohashHex = EncodeToString ih\<rparr>"
  by (simp add: summarize_def example_announce_def announce_query_def example_from_def)

lemma onAnnounce_example:
  assumes "int (length (announcements g)) < maxAnnouncements g"
    and "secret g = secret example_dht"
  shows "onAnnouncePeerQuery (example_runtime t c) g (example_announce ih []) example_from
           = Inr (notify (g\<lparr>announcements := announcements g
                  @ [\<lparr>raw = example_announce ih [], from_addr = example_from,
                      peer = \<lparr>tcp_IP = IP example_from, tcp_Port = 6881\<rparr>,
                      infohash = ih, infohashHex = EncodeToString ih\<rparr>]\<rparr>))"
proof -
  have tok: "genToken (example_runtime t c) g example_from = example_token"
    using assms(2) example_token_valid [of t c] by (simp add: genToken_def)
  have a: "as_dict (example_announce ih [] ''a'')
             = Some (map_of [(''id'', BString ''aaaaaaaaaaaaaaaaaaaa''),
                             (''info_hash'', BString ih),
                             (''token'', BString example_token)])"
    by (simp add: example_announce_def announce_query_def)
  show ?thesis
    using assms(1)
    by (simp add: onAnnouncePeerQuery_def a validateToken_def tok summarize_example)
qed

lemma onMessage_example:
  assumes "int (length (announcements g)) < maxAnnouncements g"
    and "secret g = secret example_dht"
  shows "onMessage (example_runtime [(dg, example_announce ih [])] c) g dg example_from
           = Inr (notify (g\<lparr>announcements := announcements g
                  @ [\<lparr>raw = example_announce ih [], from_addr = example_from,
                      peer = \<lparr>tcp_IP = IP example_from, tcp_Port = 6881\<rparr>,
                      infohash = ih, infohashHex = EncodeToString ih\<rparr>]\<rparr>))"
proof -
  let ?rt = "example_runtime [(dg, example_announce ih [])] c"
  have d: "bencode_Decode ?rt dg = Some (example_announce ih [])"
    by (simp add: example_runtime_def)
  have y: "as_string (example_announce ih [] ''y'') = Some ''q''"
    and q: "as_string (example_announce ih [] ''q'') = Some ''announce_peer''"
    and t: "as_string (example_announce ih [] ''t'') = Some ''aa''"
    by (simp_all add: example_announce_def announce_query_def)
  show ?thesis
    by (simp add: onMessage_query [of ?rt dg "example_announce ih []", OF d y]
        onQuery_announce [of "example_announce ih []", OF q] t
        onAnnounce_example [OF assms])
qed

theorem announcement_store_bounded_witness:
  "onAnnouncePeerQuery
      (example_runtime [(announce_datagram hash11 [], example_announce hash11 [])] (\<lambda>k. 0))
      (example_dht\<lparr>maxAnnouncements := 0\<rparr>) (example_announce hash11 []) example_from
     = Inr (example_dht\<lparr>maxAnnouncements := 0\<rparr>)
   \<and> (\<exists>g1. onAnnouncePeerQuery
              (example_runtime [(announce_datagram hash11 [], example_announce hash11 [])] (\<lambda>k. 0))
              example_dht (example_announce hash11 []) example_from = Inr g1
           \<and> length (announcements g1) = 1
           \<and> int (length (announcements g1)) \<le> maxAnnouncements g1)
   \<and> (\<exists>g2. newDHT True ''LLLLLLLLLLLLLLLLLLLL'' ''SSSSSSSSSSSSSSSSSSSS'' 1
              = Inr (Some example_dht)
           \<and> listen
               (example_runtime [(announce_datagram hash11 [], example_announce hash11 [])] (\<lambda>k. 0))
               example_dht [(announce_datagram hash11 [], example_from)] = Inr g2
           \<and> length (announcements g2) = 1
           \<and> maxAnnouncements g2 = 10
           \<and> int (length (announcements g2)) \<le> 10)"
proof -
  let ?dg = "announce_datagram hash11 []"
  let ?d = "example_announce hash11 []"
  let ?rt = "example_runtime [(?dg, ?d)] (\<lambda>k. 0)"
  let ?full = "example_dht\<lparr>maxAnnouncements := 0\<rparr>"
  let ?reads = "[(?dg, example_from)]"
  have w: "wrap64 10 = 10"
    unfolding wrap64_def by (simp add: signed_take_bit_int_eq_self)
  have new: "newDHT True ''LLLLLLLLLLLLLLLLLLLL'' ''SSSSSSSSSSSSSSSSSSSS'' 1
               = Inr (Some example_dht)"
    by (simp add: newDHT_def per_def go_div_def Every_def second_def example_dht_def w)
  have full: "maxAnnouncements ?full \<le> int (length (announcements ?full))"
    by (simp add: example_dht_def)
  have room: "int (length (announcements example_dht)) < maxAnnouncements example_dht"
    by (simp add: example_dht_def)
  have len0: "announcements example_dht = []" by (simp add: example_dht_def)
  obtain g1 where g1: "onAnnouncePeerQuery ?rt example_dht ?d example_from = Inr g1"
    and g1len: "length (announcements g1) = 1"
    using onAnnounce_example [OF room refl, of "[(?dg, ?d)]" "\<lambda>k. 0" hash11]
    by (simp add: notify_fields len0)
  obtain g2 where g2: "listen ?rt example_dht ?reads = Inr g2"
    and g2len: "length (announcements g2) = 1"
    using onMessage_example [OF room refl, of ?dg hash11 "\<lambda>k. 0"]
    by (simp add: notify_fields len0)
  have le: "int (length (announcements example_dht)) \<le> maxAnnouncements example_dht"
    using room by simp
  have c1: "onAnnouncePeerQuery ?rt ?full ?d example_from = Inr ?full"
    using announcement_store_bounded [of ?full ?rt ?d example_from] full by blast
  have c2: "int (length (announcements g1)) \<le> maxAnnouncements g1"
    using announcement_store_bounded [of example_dht ?rt ?d example_from g1] g1 le by blast
  have n: "(0::int) \<le> 1" "(1::int) \<le> 922337203685477580" by simp_all
  have "maxAnnouncements g2 = 10 * 1 \<and> int (length (announcements g2)) \<le> 10 * 1"
    using announcement_store_bounded [of example_dht ?rt ?d example_from g1 True
        "''LLLLLLLLLLLLLLLLLLLL''" "''SSSSSSSSSSSSSSSSSSSS''" 1 example_dht ?reads g2]
      new n g2 by blast
  then have c3: "maxAnnouncements g2 = 10" "int (length (announcements g2)) \<le> 10"
    by simp_all
  show ?thesis
    using c1 c2 c3 g1 g1len new g2 g2len by blast
qed

section \<open>announce_peer: what is stored\<close>

lemma onAnnouncePeerQuery_stores:
  assumes "int (length (announcements g)) < maxAnnouncements g"
    and "as_dict (d ''a'') = Some a"
    and "as_string (a ''token'') = Some (genToken rt g from)"
    and "as_string (a ''info_hash'') = Some ih"
  shows "\<exists>ac. onAnnouncePeerQuery rt g d from
                 = Inr (notify (g\<lparr>announcements := announcements g @ [ac]\<rparr>))
           \<and> infohash ac = ih \<and> raw ac = d \<and> from_addr ac = from"
proof -
  have "\<exists>ac. summarize d from = Some ac \<and> infohash ac = ih \<and> raw ac = d
          \<and> from_addr ac = from"
    using assms(2,4) by (simp add: summarize_def Let_def)
  then obtain ac where s: "summarize d from = Some ac"
    and f: "infohash ac = ih" "raw ac = d" "from_addr ac = from"
    by blast
  have "onAnnouncePeerQuery rt g d from
          = Inr (notify (g\<lparr>announcements := announcements g @ [ac]\<rparr>))"
    using assms(1,2,3) s by (simp add: onAnnouncePeerQuery_def validateToken_def)
  then show ?thesis using f by auto
qed

lemma summarize_fields:
  assumes "summarize d from = Some ac"
  shows "\<exists>a ih. as_dict (d ''a'') = Some a \<and> as_string (a ''info_hash'') = Some ih
           \<and> ac = \<lparr>raw = d, from_addr = from,
                    peer = \<lparr>tcp_IP = IP from,
                            tcp_Port = (case as_int64 (a ''port'') of
                                          None \<Rightarrow> Port from
                                        | Some p \<Rightarrow>
                                            if as_int64 (a ''implied_port'') = Some 0 then p
                                            else Port from)\<rparr>,
                    infohash = ih, infohashHex = EncodeToString ih\<rparr>"
proof -
  from assms obtain a where a: "as_dict (d ''a'') = Some a"
    by (cases "as_dict (d ''a'')") (simp_all add: summarize_def)
  from assms a obtain ih where ih: "as_string (a ''info_hash'') = Some ih"
    by (cases "as_string (a ''info_hash'')") (simp_all add: summarize_def)
  have "ac = \<lparr>raw = d, from_addr = from,
              peer = \<lparr>tcp_IP = IP from,
                      tcp_Port = (case as_int64 (a ''port'') of
                                    None \<Rightarrow> Port from
                                  | Some p \<Rightarrow>
                                      if as_int64 (a ''implied_port'') = Some 0 then p
                                      else Port from)\<rparr>,
              infohash = ih, infohashHex = EncodeToString ih\<rparr>"
    using assms
    by (cases "as_int64 (a ''port'')"; cases "as_int64 (a ''implied_port'')")
       (auto simp: summarize_def a ih)
  then show ?thesis using a ih by blast
qed

text \<open>
  C7. For every announce_peer query that stores an announcement: the entry is appended
  to the list; its peer address is the source IP with the source UDP port, unless
  \<open>a.implied_port\<close> is the integer 0 and \<open>a.port\<close> is an integer, and then with
  \<open>a.port\<close>; \<open>infohash\<close> is the \<open>a.info_hash\<close> string byte for byte and
  \<open>infohashHex\<close> its hexadecimal encoding, two lowercase digits per byte, which
  decodes back to those bytes.
\<close>

theorem announcement_port_and_infohash:
  assumes "onAnnouncePeerQuery rt g d from = Inr g'"
    and "announcements g' \<noteq> announcements g"
  shows "\<exists>ac a ih. announcements g' = announcements g @ [ac]
           \<and> as_dict (d ''a'') = Some a \<and> as_string (a ''info_hash'') = Some ih
           \<and> tcp_IP (peer ac) = IP from
           \<and> tcp_Port (peer ac)
               = (case as_int64 (a ''port'') of
                    None \<Rightarrow> Port from
                  | Some p \<Rightarrow> if as_int64 (a ''implied_port'') = Some 0 then p else Port from)
           \<and> infohash ac = ih
           \<and> infohashHex ac = EncodeToString ih
           \<and> length (infohashHex ac) = 2 * length ih
           \<and> set (infohashHex ac) \<subseteq> set ''0123456789abcdef''
           \<and> DecodeString (infohashHex ac) = Some ih"
proof -
  from onAnnouncePeerQuery_cases [of rt g d "from"] assms
  obtain ac where s: "summarize d from = Some ac"
    and r: "g' = notify (g\<lparr>announcements := announcements g @ [ac]\<rparr>)"
    by auto
  from summarize_fields [OF s] obtain a ih where a: "as_dict (d ''a'') = Some a"
    and ih: "as_string (a ''info_hash'') = Some ih"
    and ac: "ac = \<lparr>raw = d, from_addr = from,
                    peer = \<lparr>tcp_IP = IP from,
                            tcp_Port = (case as_int64 (a ''port'') of
                                          None \<Rightarrow> Port from
                                        | Some p \<Rightarrow>
                                            if as_int64 (a ''implied_port'') = Some 0 then p
                                            else Port from)\<rparr>,
                    infohash = ih, infohashHex = EncodeToString ih\<rparr>"
    by blast
  have 1: "announcements g' = announcements g @ [ac]" by (simp add: r notify_fields)
  have 2: "tcp_IP (peer ac) = IP from" "infohash ac = ih" "infohashHex ac = EncodeToString ih"
    "tcp_Port (peer ac)
       = (case as_int64 (a ''port'') of
            None \<Rightarrow> Port from
          | Some p \<Rightarrow> if as_int64 (a ''implied_port'') = Some 0 then p else Port from)"
    by (simp_all add: ac)
  have 3: "length (infohashHex ac) = 2 * length ih"
    "set (infohashHex ac) \<subseteq> set ''0123456789abcdef''"
    "DecodeString (infohashHex ac) = Some ih"
    unfolding 2(3)
    by (rule EncodeToString_length EncodeToString_lowercase DecodeString_EncodeToString)+
  show ?thesis using 1 2 3 a ih by blast
qed

theorem announcement_port_and_infohash_witness:
  "(\<exists>g' ac. onAnnouncePeerQuery (example_runtime [] (\<lambda>k. 0)) example_dht
               (example_announce hash11 []) example_from = Inr g'
           \<and> announcements g' = [ac]
           \<and> tcp_Port (peer ac) = 6881
           \<and> infohash ac = hash11
           \<and> infohashHex ac = ''1111111111111111111111111111111111111111'')
   \<and> (\<exists>g' ac. onAnnouncePeerQuery (example_runtime [] (\<lambda>k. 0)) example_dht
               (example_announce hash11 [(''implied_port'', BInt 0), (''port'', BInt 51413)])
               example_from = Inr g'
           \<and> announcements g' = [ac]
           \<and> tcp_Port (peer ac) = 51413)"
proof -
  let ?rt = "example_runtime [] (\<lambda>k. 0)"
  have room: "int (length (announcements example_dht)) < maxAnnouncements example_dht"
    by (simp add: example_dht_def)
  have len0: "announcements example_dht = []" by (simp add: example_dht_def)
  have port: "Port example_from = 6881" by (simp add: example_from_def)
  have part: "\<exists>g' ac. onAnnouncePeerQuery ?rt example_dht (example_announce hash11 ports)
                 example_from = Inr g'
             \<and> announcements g' = [ac]
             \<and> tcp_Port (peer ac) = p
             \<and> infohash ac = hash11
             \<and> infohashHex ac = EncodeToString hash11"
    if p: "(case as_int64 (map_of ports ''port'') of
              None \<Rightarrow> 6881
            | Some q \<Rightarrow> if as_int64 (map_of ports ''implied_port'') = Some 0 then q else 6881) = p"
    for ports p
  proof -
    let ?d = "example_announce hash11 ports"
    let ?a = "map_of ([(''id'', BString ''aaaaaaaaaaaaaaaaaaaa''),
                       (''info_hash'', BString hash11),
                       (''token'', BString example_token)] @ ports)"
    have a: "as_dict (?d ''a'') = Some ?a"
      by (simp add: example_announce_def announce_query_def)
    have tok: "as_string (?a ''token'') = Some (genToken ?rt example_dht example_from)"
      by (simp add: example_token_valid)
    have ih: "as_string (?a ''info_hash'') = Some hash11" by simp
    have pp: "?a ''port'' = map_of ports ''port''"
      "?a ''implied_port'' = map_of ports ''implied_port''"
      by simp_all
    from onAnnouncePeerQuery_stores [of example_dht ?d ?a ?rt example_from hash11,
        OF room a tok ih]
    obtain g' ac0 where r: "onAnnouncePeerQuery ?rt example_dht ?d example_from = Inr g'"
      and g': "g' = notify (example_dht\<lparr>announcements := announcements example_dht @ [ac0]\<rparr>)"
      by blast
    have ne: "announcements g' \<noteq> announcements example_dht"
      by (simp add: g' notify_fields)
    from announcement_port_and_infohash [OF r ne]
    obtain ac a' ih' where 1: "announcements g' = announcements example_dht @ [ac]"
      and 2: "as_dict (?d ''a'') = Some a'" "as_string (a' ''info_hash'') = Some ih'"
      and 3: "tcp_Port (peer ac)
               = (case as_int64 (a' ''port'') of
                    None \<Rightarrow> Port example_from
                  | Some p \<Rightarrow> if as_int64 (a' ''implied_port'') = Some 0 then p
                             else Port example_from)"
      and 4: "infohash ac = ih'" "infohashHex ac = EncodeToString ih'"
      by blast
    have a': "a' = ?a" using 2(1) a by simp
    have ih': "ih' = hash11" using 2(2) ih unfolding a' by simp
    have "tcp_Port (peer ac) = p" unfolding 3 a' pp port by (rule p)
    then show ?thesis using r 1 4 by (auto simp: len0 ih')
  qed
  have hex: "EncodeToString hash11 = ''1111111111111111111111111111111111111111''"
    by (simp add: hash11_def hextable_def)
  have "\<exists>g' ac. onAnnouncePeerQuery ?rt example_dht (example_announce hash11 [])
                 example_from = Inr g'
             \<and> announcements g' = [ac]
             \<and> tcp_Port (peer ac) = 6881
             \<and> infohash ac = hash11
             \<and> infohashHex ac = EncodeToString hash11"
    by (rule part) simp
  moreover have "\<exists>g' ac. onAnnouncePeerQuery ?rt example_dht
                 (example_announce hash11 [(''implied_port'', BInt 0), (''port'', BInt 51413)])
                 example_from = Inr g'
             \<and> announcements g' = [ac]
             \<and> tcp_Port (peer ac) = 51413
             \<and> infohash ac = hash11
             \<and> infohashHex ac = EncodeToString hash11"
    by (rule part) simp
  ultimately show ?thesis unfolding hex by blast
qed

text \<open>
  C10. \<open>onAnnouncePeerQuery\<close> has no check on the length of \<open>a.info_hash\<close>: below
  capacity and with the valid token, a query whose \<open>a.info_hash\<close> is a string of any
  length stores an announcement whose \<open>infohash\<close> is that string.
\<close>

theorem announce_info_hash_any_length:
  assumes "int (length (announcements g)) < maxAnnouncements g"
    and "as_dict (d ''a'') = Some a"
    and "as_string (a ''token'') = Some (genToken rt g from)"
    and "as_string (a ''info_hash'') = Some ih"
  shows "\<exists>ac. onAnnouncePeerQuery rt g d from
                 = Inr (notify (g\<lparr>announcements := announcements g @ [ac]\<rparr>))
           \<and> announcements (notify (g\<lparr>announcements := announcements g @ [ac]\<rparr>))
               = announcements g @ [ac]
           \<and> infohash ac = ih \<and> raw ac = d \<and> from_addr ac = from"
proof -
  have "\<exists>ac. summarize d from = Some ac \<and> infohash ac = ih \<and> raw ac = d
          \<and> from_addr ac = from"
    using assms(2,4) by (simp add: summarize_def Let_def)
  then obtain ac where s: "summarize d from = Some ac"
    and f: "infohash ac = ih" "raw ac = d" "from_addr ac = from"
    by blast
  have "onAnnouncePeerQuery rt g d from
          = Inr (notify (g\<lparr>announcements := announcements g @ [ac]\<rparr>))"
    using assms(1,2,3) s by (simp add: onAnnouncePeerQuery_def validateToken_def)
  then show ?thesis using f by (auto simp: notify_fields)
qed

theorem announce_info_hash_any_length_witness:
  "\<exists>ac. onAnnouncePeerQuery (example_runtime [] (\<lambda>k. 0)) example_dht
            (example_announce ''abc'' []) example_from
          = Inr (notify (example_dht\<lparr>announcements := announcements example_dht @ [ac]\<rparr>))
       \<and> infohash ac = ''abc'' \<and> length (infohash ac) = 3"
proof -
  let ?rt = "example_runtime [] (\<lambda>k. 0)"
  let ?d = "example_announce ''abc'' []"
  let ?a = "map_of [(''id'', BString ''aaaaaaaaaaaaaaaaaaaa''),
                    (''info_hash'', BString ''abc''),
                    (''token'', BString example_token)]"
  have room: "int (length (announcements example_dht)) < maxAnnouncements example_dht"
    by (simp add: example_dht_def)
  have a: "as_dict (?d ''a'') = Some ?a"
    by (simp add: example_announce_def announce_query_def)
  have tok: "as_string (?a ''token'') = Some (genToken ?rt example_dht example_from)"
    by (simp add: example_token_valid)
  have ih: "as_string (?a ''info_hash'') = Some ''abc''" by simp
  from announce_info_hash_any_length [of example_dht ?d ?a ?rt example_from "''abc''",
      OF room a tok ih]
  obtain ac where
    "onAnnouncePeerQuery ?rt example_dht ?d example_from
       = Inr (notify (example_dht\<lparr>announcements := announcements example_dht @ [ac]\<rparr>))"
    "infohash ac = ''abc''"
    by blast
  then show ?thesis by force
qed

section \<open>get_peers\<close>

lemma makeReply_fields:
  "makeReply tid r ''t'' = Some (BString tid)"
  "makeReply tid r ''y'' = Some (BString ''r'')"
  "makeReply tid r ''r'' = Some (BDict r)"
  "dom (makeReply tid r) = {''t'', ''y'', ''r''}"
  by (auto simp: makeReply_def)

text \<open>
  C5. A datagram that decodes to a get_peers query with a string \<open>t\<close>, a dictionary
  \<open>a\<close> and a 20-byte string \<open>a.id\<close> makes the engine (whose own id has 20 bytes)
  write exactly one datagram, to the sender and nothing else in the state changes: the
  encoding of a reply with the query's \<open>t\<close>, \<open>y\<close> = \<open>r\<close>, and an \<open>r\<close> with
  \<open>id\<close> = \<open>neighborID\<close> of \<open>a.id\<close> and the local id (15 bytes of the one, 5 of the
  other), \<open>nodes\<close> the empty string and \<open>token\<close> = \<open>genToken\<close> of the sender.
\<close>

theorem get_peers_reply:
  assumes "bencode_Decode rt data = Some d"
    and "as_string (d ''y'') = Some ''q''"
    and "as_string (d ''q'') = Some ''get_peers''"
    and "as_string (d ''t'') = Some tid"
    and "as_dict (d ''a'') = Some a"
    and "as_string (a ''id'') = Some ident"
    and "length ident = 20"
    and "len (localID g) = 20"
  shows "\<exists>nid reply r.
           neighborID (to_bytes rt ident) (localID g) = Inr nid
           \<and> elems nid = take 15 ident @ drop 15 (elems (localID g))
           \<and> onMessage rt g data from = Inr (g\<lparr>conn := conn g @ [(bencode_Encode rt reply, from)]\<rparr>)
           \<and> reply ''t'' = Some (BString tid)
           \<and> reply ''y'' = Some (BString ''r'')
           \<and> reply ''r'' = Some (BDict r)
           \<and> dom reply = {''t'', ''y'', ''r''}
           \<and> r ''id'' = Some (BString (elems nid))
           \<and> r ''nodes'' = Some (BString '''')
           \<and> r ''token'' = Some (BString (genToken rt g from))
           \<and> dom r = {''id'', ''nodes'', ''token''}"
proof -
  have "len (to_bytes rt ident) = 20" using assms(7) by (simp add: to_bytes_def len_def)
  from neighborID_20 [OF this assms(8)]
  obtain nid where n: "neighborID (to_bytes rt ident) (localID g) = Inr nid"
    and l: "len nid = 20"
    and t: "take 15 (elems nid) = take 15 ident"
    and dr: "drop 15 (elems nid) = drop 15 (elems (localID g))"
    by (auto simp: to_bytes_def)
  have e: "elems nid = take 15 ident @ drop 15 (elems (localID g))"
    using append_take_drop_id [of 15 "elems nid"] t dr by simp
  let ?r = "[''id'' \<mapsto> BString (elems nid), ''nodes'' \<mapsto> BString '''',
             ''token'' \<mapsto> BString (genToken rt g from)]"
  have "onGetPeersQuery rt g d from = Inr (send rt g (makeReply tid ?r) from)"
    using assms(4,5,6) n by (simp add: onGetPeersQuery_def)
  then have m: "onMessage rt g data from
                  = Inr (g\<lparr>conn := conn g @ [(bencode_Encode rt (makeReply tid ?r), from)]\<rparr>)"
    using onMessage_query [of rt data d g "from", OF assms(1,2)]
      onQuery_get_peers [of d tid rt g "from", OF assms(3,4)]
    by (simp add: send_def)
  have r: "?r ''id'' = Some (BString (elems nid))" "?r ''nodes'' = Some (BString '''')"
    "?r ''token'' = Some (BString (genToken rt g from))"
    "dom ?r = {''id'', ''nodes'', ''token''}"
    by auto
  show ?thesis
    using n e m makeReply_fields [of tid ?r] r by blast
qed

theorem get_peers_reply_witness:
  "drop 15 (elems (localID example_dht)) = ''LLLLL''
   \<and> conn example_dht = []
   \<and> genToken (example_runtime [(get_peers_datagram idAA, get_peers_query idAA)] (\<lambda>k. 0))
        example_dht example_from = example_token
   \<and> (\<exists>nid reply r.
         neighborID
             (to_bytes (example_runtime [(get_peers_datagram idAA, get_peers_query idAA)] (\<lambda>k. 0))
                idAA)
             (localID example_dht) = Inr nid
         \<and> elems nid = take 15 idAA @ drop 15 (elems (localID example_dht))
         \<and> onMessage (example_runtime [(get_peers_datagram idAA, get_peers_query idAA)] (\<lambda>k. 0))
               example_dht (get_peers_datagram idAA) example_from
             = Inr (example_dht\<lparr>conn := conn example_dht
                      @ [(bencode_Encode
                            (example_runtime [(get_peers_datagram idAA, get_peers_query idAA)]
                               (\<lambda>k. 0)) reply,
                          example_from)]\<rparr>)
         \<and> reply ''t'' = Some (BString ''aa'')
         \<and> reply ''y'' = Some (BString ''r'')
         \<and> reply ''r'' = Some (BDict r)
         \<and> dom reply = {''t'', ''y'', ''r''}
         \<and> r ''id'' = Some (BString (elems nid))
         \<and> r ''nodes'' = Some (BString [])
         \<and> r ''token''
             = Some (BString (genToken
                       (example_runtime [(get_peers_datagram idAA, get_peers_query idAA)] (\<lambda>k. 0))
                       example_dht example_from))
         \<and> dom r = {''id'', ''nodes'', ''token''})"
proof -
  let ?rt = "example_runtime [(get_peers_datagram idAA, get_peers_query idAA)] (\<lambda>k. 0)"
  let ?d = "get_peers_query idAA"
  have 1: "bencode_Decode ?rt (get_peers_datagram idAA) = Some ?d"
    by (simp add: example_runtime_def)
  have 2: "as_string (?d ''y'') = Some ''q''" "as_string (?d ''q'') = Some ''get_peers''"
    "as_string (?d ''t'') = Some ''aa''" "as_dict (?d ''a'') = Some [''id'' \<mapsto> BString idAA]"
    by (simp_all add: get_peers_query_def)
  have 3: "as_string ([''id'' \<mapsto> BString idAA] ''id'') = Some idAA" by simp
  have 4: "length idAA = 20" by (simp add: idAA_def)
  have 5: "len (localID example_dht) = 20" by (simp add: example_dht_def len_def)
  have 6: "drop 15 (elems (localID example_dht)) = ''LLLLL''" "conn example_dht = []"
    by (simp_all add: example_dht_def)
  note 7 = get_peers_reply [of ?rt "get_peers_datagram idAA" ?d "''aa''"
      "[''id'' \<mapsto> BString idAA]" idAA example_dht example_from, OF 1 2 3 4 5]
  show ?thesis
    by (intro conjI) (rule 6 example_token_valid 7)+
qed

section \<open>Replies and the rate limiter\<close>

lemma clock_readings_Suc:
  "clock_readings rt k (Suc n) = time_Now rt k # clock_readings rt (Suc k) n"
proof -
  have "[k..<k + Suc n] = k # [Suc k..<Suc k + n]" by (subst upt_rec) simp
  then show ?thesis by (simp add: clock_readings_def)
qed

lemma onReply_loop_chNode:
  "chNode (onReply_loop rt g ns)
     = chNode g @ allowed (allow_seq (friendsLimiter g)
                             (clock_readings rt (clock_reads g) (length ns))) ns"
proof (induction ns arbitrary: g)
  case Nil
  show ?case by (simp add: allowed_def clock_readings_def)
next
  case (Cons n ns)
  obtain ok g1 where a: "friendsLimiter_Allow rt g = (ok, g1)"
    by (cases "friendsLimiter_Allow rt g")
  note f = friendsLimiter_Allow_fields [OF a]
  from f have al: "Allow (friendsLimiter g) (time_Now rt (clock_reads g))
                     = (ok, friendsLimiter g1)" by simp
  have seq: "allow_seq (friendsLimiter g) (clock_readings rt (clock_reads g) (length (n # ns)))
               = ok # allow_seq (friendsLimiter g1)
                        (clock_readings rt (clock_reads g1) (length ns))"
    using f by (simp add: clock_readings_Suc al)
  show ?case
  proof (cases ok)
    case True
    let ?g2 = "g1\<lparr>chNode := chNode g1 @ [n]\<rparr>"
    have "onReply_loop rt g (n # ns) = onReply_loop rt ?g2 ns" using a True by simp
    then have "chNode (onReply_loop rt g (n # ns))
                 = chNode ?g2 @ allowed (allow_seq (friendsLimiter ?g2)
                     (clock_readings rt (clock_reads ?g2) (length ns))) ns"
      using Cons.IH [of ?g2] by simp
    then show ?thesis unfolding seq using f True by (simp add: allowed_def)
  next
    case False
    have "onReply_loop rt g (n # ns) = onReply_loop rt g1 ns" using a False by simp
    then have "chNode (onReply_loop rt g (n # ns))
                 = chNode g1 @ allowed (allow_seq (friendsLimiter g1)
                     (clock_readings rt (clock_reads g1) (length ns))) ns"
      using Cons.IH [of g1] by simp
    then show ?thesis unfolding seq using f False by (simp add: allowed_def)
  qed
qed

lemma Allow_full_bucket:
  assumes "0 < iv"
  shows "Allow (NewLimiter (PerInterval iv) 1) t1
           = (True, \<lparr>limit = PerInterval iv, burst = 1, tokens = 0, last_time = t1\<rparr>)"
proof -
  have "0 \<le> (of_int (t1 - min 0 t1) :: rat) / of_int iv"
    using assms by (intro divide_nonneg_pos) simp_all
  then have "min 1 (1 + (of_int (t1 - min 0 t1) :: rat) / of_int iv) = 1" by simp
  then show ?thesis by (simp add: Allow_def NewLimiter_def Let_def)
qed

lemma Allow_empty_bucket:
  assumes "0 < iv" and "t2 - t1 < iv"
  shows "Allow \<lparr>limit = PerInterval iv, burst = 1, tokens = 0, last_time = t1\<rparr> t2
           = (False, \<lparr>limit = PerInterval iv, burst = 1, tokens = 0, last_time = t1\<rparr>)"
proof -
  have "t2 - min t1 t2 < iv" using assms by (simp add: min_def)
  then have "(of_int (t2 - min t1 t2) :: rat) < of_int iv" by (simp only: of_int_less_iff)
  then have "(of_int (t2 - min t1 t2) :: rat) / of_int iv < 1" using assms(1) by simp
  then have "\<not> 1 \<le> min 1 (0 + (of_int (t2 - min t1 t2) :: rat) / of_int iv)" by simp
  then show ?thesis by (simp add: Allow_def Let_def)
qed

lemma Allow_refilled_bucket:
  assumes "0 < iv" and "iv \<le> t2 - t1"
  shows "Allow \<lparr>limit = PerInterval iv, burst = 1, tokens = 0, last_time = t1\<rparr> t2
           = (True, \<lparr>limit = PerInterval iv, burst = 1, tokens = 0, last_time = t2\<rparr>)"
proof -
  have "min t1 t2 = t1" using assms by simp
  moreover have "(of_int iv :: rat) \<le> of_int (t2 - t1)" using assms(2) by (simp only: of_int_le_iff)
  then have "1 \<le> (of_int (t2 - t1) :: rat) / of_int iv" using assms(1) by simp
  then have "min 1 (0 + (of_int (t2 - t1) :: rat) / of_int iv) = 1" by simp
  ultimately show ?thesis by (simp add: Allow_def Let_def)
qed

lemma decodeNodes_ref_two:
  assumes "length s = 52"
  shows "decodeNodes_ref s = [node_ref s 0, node_ref s (Suc 0)]"
proof -
  have "[0..<2] = [0, Suc 0]" by (simp add: upt_conv_Cons)
  then show ?thesis using assms by (simp add: decodeNodes_ref_def)
qed

lemma onReply_nodes:
  assumes "as_dict (d ''r'') = Some r" and "as_string (r ''nodes'') = Some s"
  shows "onReply rt g d from = Inr (onReply_loop rt g (decodeNodes_ref s))"
  using assms by (simp add: onReply_def decodeNodes_eq_ref)

lemma allowed_simps:
  "allowed [True, False] [n0, n1] = [n0]"
  "allowed [True, True] [n0, n1] = [n0, n1]"
  by (simp_all add: allowed_def)

lemma allow_seq_burst1_denied:
  assumes "0 < iv" and "t2 - t1 < iv"
  shows "allow_seq (NewLimiter (PerInterval iv) 1) [t1, t2] = [True, False]"
  by (simp add: Allow_full_bucket [OF assms(1)] Allow_empty_bucket [OF assms])

lemma allow_seq_burst1_refilled:
  assumes "0 < iv" and "iv \<le> t2 - t1"
  shows "allow_seq (NewLimiter (PerInterval iv) 1) [t1, t2] = [True, True]"
  by (simp add: Allow_full_bucket [OF assms(1)] Allow_refilled_bucket [OF assms])

lemma clock_readings_2:
  "clock_readings rt k 2 = [time_Now rt k, time_Now rt (Suc k)]"
proof -
  have "clock_readings rt k (Suc (Suc 0)) = [time_Now rt k, time_Now rt (Suc k)]"
    by (simp only: clock_readings_Suc) (simp add: clock_readings_def)
  then show ?thesis by (simp add: numeral_2_eq_2)
qed

text \<open>
  C8 (as amended). A reply whose \<open>r.nodes\<close> is a string \<open>s\<close> never panics; every decoded
  node is tested once against \<open>Allow()\<close>, in decode order (one clock reading per node),
  and exactly the nodes whose test succeeds are handed to \<open>chNode\<close>, in that order;
  nothing else is queued or sent. With a limiter of burst 1 and a full bucket, two
  decoded nodes give exactly one handed on, the first, provided less than the refill
  interval passes between the two tests.
\<close>

theorem reply_nodes_rate_limited:
  assumes "as_dict (d ''r'') = Some r" and "as_string (r ''nodes'') = Some s"
  shows "\<exists>g'. onReply rt g d from = Inr g'
           \<and> chNode g'
               = chNode g @ allowed (allow_seq (friendsLimiter g)
                                       (clock_readings rt (clock_reads g)
                                          (length (decodeNodes_ref s))))
                              (decodeNodes_ref s)
           \<and> clock_reads g' = clock_reads g + length (decodeNodes_ref s)
           \<and> announcements g' = announcements g
           \<and> conn g' = conn g
           \<and> (friendsLimiter g = NewLimiter (PerInterval iv) 1 \<and> 0 < iv \<and> length s = 52
                \<and> time_Now rt (Suc (clock_reads g)) - time_Now rt (clock_reads g) < iv
               \<longrightarrow> chNode g' = chNode g @ [node_ref s 0])"
proof -
  let ?ns = "decodeNodes_ref s"
  let ?g' = "onReply_loop rt g ?ns"
  have r: "onReply rt g d from = Inr ?g'" using assms by (rule onReply_nodes)
  note c = onReply_loop_chNode [of rt g ?ns]
  note f = onReply_loop_fields [of rt g ?ns]
  have p: "chNode ?g' = chNode g @ [node_ref s 0]"
    if "friendsLimiter g = NewLimiter (PerInterval iv) 1" "0 < iv" "length s = 52"
      "time_Now rt (Suc (clock_reads g)) - time_Now rt (clock_reads g) < iv"
  proof -
    have ns: "?ns = [node_ref s 0, node_ref s (Suc 0)]" using that(3) by (rule decodeNodes_ref_two)
    have "length ?ns = 2" by (simp add: ns)
    then have "chNode ?g' = chNode g @ allowed (allow_seq (NewLimiter (PerInterval iv) 1)
                 [time_Now rt (clock_reads g), time_Now rt (Suc (clock_reads g))]) ?ns"
      using c by (simp only: that(1) clock_readings_2)
    also have "allow_seq (NewLimiter (PerInterval iv) 1)
                 [time_Now rt (clock_reads g), time_Now rt (Suc (clock_reads g))] = [True, False]"
      using that(2,4) by (rule allow_seq_burst1_denied)
    also have "allowed [True, False] ?ns = [node_ref s 0]"
      by (simp only: ns allowed_simps)
    finally show ?thesis .
  qed
  show ?thesis using r c f p by blast
qed

theorem reply_nodes_rate_limited_witness:
  "\<exists>g'. onReply (example_runtime [] (\<lambda>k. 0)) example_dht (reply_message two_nodes) example_from
          = Inr g'
       \<and> chNode g' = [\<lparr>addr = ''1.2.3.4:6881'', id_node = ''aaaaaaaaaaaaaaaaaaaa''\<rparr>]
       \<and> clock_reads g' = 2
       \<and> conn g' = []"
proof -
  let ?rt = "example_runtime [] (\<lambda>k. 0)"
  let ?r = "[''id'' \<mapsto> BString (replicate 20 (CHR ''n'')), ''nodes'' \<mapsto> BString two_nodes]"
  have 1: "as_dict (reply_message two_nodes ''r'') = Some ?r"
    by (simp add: reply_message_def)
  have 2: "as_string (?r ''nodes'') = Some two_nodes" by simp
  have 3: "friendsLimiter example_dht = NewLimiter (PerInterval second) 1" "(0::int) < second"
    "length two_nodes = 52" "chNode example_dht = []" "conn example_dht = []"
    "clock_reads example_dht = 0"
    by (simp_all add: example_dht_def second_def two_nodes_def)
  have 4: "time_Now ?rt (Suc (clock_reads example_dht)) - time_Now ?rt (clock_reads example_dht)
             < second"
    by (simp add: example_runtime_def second_def)
  have 5: "length (decodeNodes_ref two_nodes) = 2"
    by (simp add: decodeNodes_ref_two [OF 3(3)])
  from reply_nodes_rate_limited [of "reply_message two_nodes" ?r two_nodes ?rt example_dht
      example_from second, OF 1 2]
  obtain g' where "onReply ?rt example_dht (reply_message two_nodes) example_from = Inr g'"
    "clock_reads g' = clock_reads example_dht + length (decodeNodes_ref two_nodes)"
    "conn g' = conn example_dht"
    "friendsLimiter example_dht = NewLimiter (PerInterval second) 1 \<and> 0 < second
       \<and> length two_nodes = 52
       \<and> time_Now ?rt (Suc (clock_reads example_dht)) - time_Now ?rt (clock_reads example_dht)
           < second
     \<longrightarrow> chNode g' = chNode example_dht @ [node_ref two_nodes 0]"
    by blast
  then show ?thesis using 3 4 5 by (simp add: node_ref_two)
qed

text \<open>
  The claim as stated fails: when a second passes between the two tests (the send on
  \<open>chNode\<close> blocks until the discovery task takes the node), the bucket of burst 1 and
  rate 1 per second has refilled and both nodes are handed on.
\<close>

theorem reply_two_nodes_burst1_counterexample:
  "\<not> isl (onReply (example_runtime [] slow_clock) example_dht (reply_message two_nodes)
            example_from)
   \<and> chNode (projr (onReply (example_runtime [] slow_clock) example_dht
                       (reply_message two_nodes) example_from))
       = [\<lparr>addr = ''1.2.3.4:6881'', id_node = ''aaaaaaaaaaaaaaaaaaaa''\<rparr>,
          \<lparr>addr = ''5.6.7.8:6881'', id_node = ''bbbbbbbbbbbbbbbbbbbb''\<rparr>]
   \<and> length (chNode (projr (onReply (example_runtime [] slow_clock) example_dht
                                (reply_message two_nodes) example_from))) \<noteq> 1"
proof -
  let ?rt = "example_runtime [] slow_clock"
  let ?r = "[''id'' \<mapsto> BString (replicate 20 (CHR ''n'')), ''nodes'' \<mapsto> BString two_nodes]"
  let ?ns = "decodeNodes_ref two_nodes"
  have 1: "as_dict (reply_message two_nodes ''r'') = Some ?r"
    by (simp add: reply_message_def)
  have 2: "as_string (?r ''nodes'') = Some two_nodes" by simp
  have 3: "friendsLimiter example_dht = NewLimiter (PerInterval second) 1"
    "chNode example_dht = []" "clock_reads example_dht = 0"
    by (simp_all add: example_dht_def)
  have l: "length two_nodes = 52" by (simp add: two_nodes_def)
  have ns: "?ns = [node_ref two_nodes 0, node_ref two_nodes (Suc 0)]"
    using l by (rule decodeNodes_ref_two)
  have t: "time_Now ?rt 0 = 0" "time_Now ?rt (Suc 0) = second"
    by (simp_all add: example_runtime_def slow_clock_def)
  have s: "allow_seq (NewLimiter (PerInterval second) 1) [0, second] = [True, True]"
    by (rule allow_seq_burst1_refilled) (simp_all add: second_def)
  have r: "onReply ?rt example_dht (reply_message two_nodes) example_from
             = Inr (onReply_loop ?rt example_dht ?ns)"
    using 1 2 by (rule onReply_nodes)
  have "length ?ns = 2" by (simp add: ns)
  then have "chNode (onReply_loop ?rt example_dht ?ns)
               = [] @ allowed (allow_seq (NewLimiter (PerInterval second) 1) [0, second]) ?ns"
    using onReply_loop_chNode [of ?rt example_dht ?ns]
    by (simp only: 3 clock_readings_2 t)
  also have "allowed (allow_seq (NewLimiter (PerInterval second) 1) [0, second]) ?ns
               = [node_ref two_nodes 0, node_ref two_nodes (Suc 0)]"
    by (simp only: s ns allowed_simps)
  finally have "chNode (onReply_loop ?rt example_dht ?ns)
                  = [node_ref two_nodes 0, node_ref two_nodes (Suc 0)]" by simp
  then show ?thesis by (simp add: r node_ref_two)
qed

section \<open>Short ids in get_peers queries\<close>

lemma neighborID_short_no_spare: "neighborID (Slice ''abc'' []) (Slice ''LLLLLLLLLLLLLLLLLLLL'' []) = Inl SliceBounds"
  by (simp add: neighborID_def slice_to_def cap_def closeness_def)

lemma neighborID_15_bytes: "neighborID (Slice id15 []) (Slice ''LLLLLLLLLLLLLLLLLLLL'' [])
           = Inr (Slice ''aaaaaaaaaaaaaaaLLLLL'' [])"
  by (simp add: neighborID_def slice_to_def slice_from_def cap_def len_def closeness_def
      copy_range_def make_bytes_def id15_def)

lemma neighborID_short_spare: "neighborID (Slice ''abc'' (replicate 29 (CHR 0x00))) (Slice ''LLLLLLLLLLLLLLLLLLLL'' [])
           = Inr (Slice (''abc'' @ replicate 12 (CHR 0x00) @ ''LLLLL'') [])"
  by (simp add: neighborID_def slice_to_def slice_from_def cap_def len_def closeness_def
      copy_range_def make_bytes_def)

lemma onGetPeersQuery_example:
  assumes "neighborID (to_bytes rt ident) (localID g) = r"
  shows "onGetPeersQuery rt g (get_peers_query ident) from
           = (case r of
                Inl e \<Rightarrow> Inl e
              | Inr nid \<Rightarrow>
                  Inr (send rt g
                         (makeReply ''aa''
                            [''id'' \<mapsto> BString (elems nid), ''nodes'' \<mapsto> BString '''',
                             ''token'' \<mapsto> BString (genToken rt g from)])
                         from))"
  using assms by (simp add: onGetPeersQuery_def get_peers_query_def)

lemma onMessage_get_peers_example:
  "onMessage (example_runtime [(dg, get_peers_query ident)] c) g dg from
     = onGetPeersQuery (example_runtime [(dg, get_peers_query ident)] c) g
         (get_peers_query ident) from"
  "onMessage (roomy (example_runtime [(dg, get_peers_query ident)] c)) g dg from
     = onGetPeersQuery (roomy (example_runtime [(dg, get_peers_query ident)] c)) g
         (get_peers_query ident) from"
proof -
  let ?d = "get_peers_query ident"
  have f: "as_string (?d ''y'') = Some ''q''" "as_string (?d ''q'') = Some ''get_peers''"
    "as_string (?d ''t'') = Some ''aa''"
    by (simp_all add: get_peers_query_def)
  have d: "bencode_Decode (example_runtime [(dg, ?d)] c) dg = Some ?d"
    "bencode_Decode (roomy (example_runtime [(dg, ?d)] c)) dg = Some ?d"
    by (simp_all add: example_runtime_def roomy_def)
  show "onMessage (example_runtime [(dg, ?d)] c) g dg from
          = onGetPeersQuery (example_runtime [(dg, ?d)] c) g ?d from"
    using onMessage_query [of _ dg ?d g "from", OF d(1) f(1)]
      onQuery_get_peers [of ?d "''aa''" _ g "from", OF f(2,3)]
    by simp
  show "onMessage (roomy (example_runtime [(dg, ?d)] c)) g dg from
          = onGetPeersQuery (roomy (example_runtime [(dg, ?d)] c)) g ?d from"
    using onMessage_query [of _ dg ?d g "from", OF d(2) f(1)]
      onQuery_get_peers [of ?d "''aa''" _ g "from", OF f(2,3)]
    by simp
qed

text \<open>
  C1. The claim does not hold of the code: \<open>onGetPeersQuery\<close> never looks at the length
  of \<open>a.id\<close>. A get_peers query with a 3-byte \<open>a.id\<close> panics in \<open>neighborID\<close> (slice
  bounds) when \<open>[]byte(id)\<close> has no spare capacity; it is answered, with an id padded
  with zero bytes, when the conversion leaves 32 bytes of capacity; and a 15-byte
  \<open>a.id\<close> is answered in either case. None of them is dropped.
\<close>

theorem short_id_get_peers_not_dropped:
  "onMessage (example_runtime [(get_peers_datagram ''abc'', get_peers_query ''abc'')] (\<lambda>k. 0))
      example_dht (get_peers_datagram ''abc'') example_from
     = Inl SliceBounds
   \<and> onMessage
        (roomy (example_runtime [(get_peers_datagram ''abc'', get_peers_query ''abc'')] (\<lambda>k. 0)))
        example_dht (get_peers_datagram ''abc'') example_from
     = Inr (example_dht\<lparr>conn :=
              [(bencode_Encode
                  (roomy (example_runtime
                            [(get_peers_datagram ''abc'', get_peers_query ''abc'')] (\<lambda>k. 0)))
                  (makeReply ''aa''
                     [''id'' \<mapsto> BString (''abc'' @ replicate 12 (CHR 0x00) @ ''LLLLL''),
                      ''nodes'' \<mapsto> BString '''',
                      ''token'' \<mapsto> BString example_token]),
                example_from)]\<rparr>)
   \<and> onMessage (example_runtime [(get_peers_datagram id15, get_peers_query id15)] (\<lambda>k. 0))
        example_dht (get_peers_datagram id15) example_from
     = Inr (example_dht\<lparr>conn :=
              [(bencode_Encode
                  (example_runtime [(get_peers_datagram id15, get_peers_query id15)] (\<lambda>k. 0))
                  (makeReply ''aa''
                     [''id'' \<mapsto> BString ''aaaaaaaaaaaaaaaLLLLL'',
                      ''nodes'' \<mapsto> BString '''',
                      ''token'' \<mapsto> BString example_token]),
                example_from)]\<rparr>)"
proof -
  have l: "localID example_dht = Slice ''LLLLLLLLLLLLLLLLLLLL'' []" "conn example_dht = []"
    by (simp_all add: example_dht_def)
  have tok: "genToken (roomy (example_runtime t c)) example_dht example_from = example_token"
    for t c
    using example_token_valid [of t c] by (simp add: genToken_def roomy_def example_runtime_def)
  have b: "to_bytes (example_runtime t c) s = Slice s []"
    "to_bytes (roomy (example_runtime t c)) ''abc'' = Slice ''abc'' (replicate 29 (CHR 0x00))"
    for t c s
    by (simp_all add: to_bytes_def example_runtime_def roomy_def)
  have 1: "onMessage (example_runtime [(get_peers_datagram ''abc'', get_peers_query ''abc'')] (\<lambda>k. 0))
             example_dht (get_peers_datagram ''abc'') example_from = Inl SliceBounds"
    unfolding onMessage_get_peers_example
    by (subst onGetPeersQuery_example [OF refl]) (simp add: b l neighborID_short_no_spare)
  have 2: "onMessage
        (roomy (example_runtime [(get_peers_datagram ''abc'', get_peers_query ''abc'')] (\<lambda>k. 0)))
        example_dht (get_peers_datagram ''abc'') example_from
     = Inr (example_dht\<lparr>conn :=
              [(bencode_Encode
                  (roomy (example_runtime
                            [(get_peers_datagram ''abc'', get_peers_query ''abc'')] (\<lambda>k. 0)))
                  (makeReply ''aa''
                     [''id'' \<mapsto> BString (''abc'' @ replicate 12 (CHR 0x00) @ ''LLLLL''),
                      ''nodes'' \<mapsto> BString '''',
                      ''token'' \<mapsto> BString example_token]),
                example_from)]\<rparr>)"
    unfolding onMessage_get_peers_example
    by (subst onGetPeersQuery_example [OF refl]) (simp add: b l neighborID_short_spare send_def tok)
  have 3: "onMessage (example_runtime [(get_peers_datagram id15, get_peers_query id15)] (\<lambda>k. 0))
        example_dht (get_peers_datagram id15) example_from
     = Inr (example_dht\<lparr>conn :=
              [(bencode_Encode
                  (example_runtime [(get_peers_datagram id15, get_peers_query id15)] (\<lambda>k. 0))
                  (makeReply ''aa''
                     [''id'' \<mapsto> BString ''aaaaaaaaaaaaaaaLLLLL'',
                      ''nodes'' \<mapsto> BString '''',
                      ''token'' \<mapsto> BString example_token]),
                example_from)]\<rparr>)"
    unfolding onMessage_get_peers_example
    by (subst onGetPeersQuery_example [OF refl]) (simp add: b l neighborID_15_bytes send_def example_token_valid)
  show ?thesis by (intro conjI) (rule 1 2 3)+
qed

lemma onGetPeersQuery_total:
  assumes "as_string (d ''t'') = Some tid"
    and "closeness \<le> len (localID g)"
    and "\<forall>a ident. as_dict (d ''a'') = Some a \<and> as_string (a ''id'') = Some ident
           \<longrightarrow> closeness \<le> cap (to_bytes rt ident)"
  shows "\<exists>g'. onGetPeersQuery rt g d from = Inr g'"
proof (cases "as_dict (d ''a'')")
  case None
  then show ?thesis using assms(1) by (simp add: onGetPeersQuery_def)
next
  case a: (Some a)
  show ?thesis
  proof (cases "as_string (a ''id'')")
    case None
    then show ?thesis using assms(1) a by (simp add: onGetPeersQuery_def)
  next
    case (Some ident)
    with a assms(3) have "closeness \<le> cap (to_bytes rt ident)" by blast
    from neighborID_total [OF this assms(2)]
    obtain nid where "neighborID (to_bytes rt ident) (localID g) = Inr nid" by blast
    then show ?thesis using assms(1) a Some by (simp add: onGetPeersQuery_def)
  qed
qed

lemma onMessage_total:
  assumes "closeness \<le> len (localID g)"
    and "\<forall>d a ident. bencode_Decode rt data = Some d \<and> as_string (d ''y'') = Some ''q''
           \<and> as_string (d ''q'') = Some ''get_peers''
           \<and> as_dict (d ''a'') = Some a \<and> as_string (a ''id'') = Some ident
           \<longrightarrow> closeness \<le> cap (to_bytes rt ident)"
  shows "\<exists>g'. onMessage rt g data from = Inr g'"
proof -
  consider "onMessage rt g data from = Inr g"
    | d where "bencode_Decode rt data = Some d" "as_string (d ''y'') = Some ''q''"
        "onMessage rt g data from = onQuery rt g d from"
    | d where "onMessage rt g data from = onReply rt g d from"
    using onMessage_cases [of rt g data "from"] by blast
  then show ?thesis
  proof cases
    case 1
    then show ?thesis by simp
  next
    case (2 d)
    consider "onQuery rt g d from = Inr g"
      | tid where "as_string (d ''t'') = Some tid" "as_string (d ''q'') = Some ''get_peers''"
          "onQuery rt g d from = onGetPeersQuery rt g d from"
      | "onQuery rt g d from = onAnnouncePeerQuery rt g d from"
      using onQuery_cases [of rt g d "from"] by blast
    then show ?thesis
    proof cases
      case 1
      then show ?thesis using 2(3) by simp
    next
      case (2 tid)
      have "\<forall>a ident. as_dict (d ''a'') = Some a \<and> as_string (a ''id'') = Some ident
              \<longrightarrow> closeness \<le> cap (to_bytes rt ident)"
        using assms(2) \<open>bencode_Decode rt data = Some d\<close> \<open>as_string (d ''y'') = Some ''q''\<close>
          2(2) by blast
      from onGetPeersQuery_total [OF 2(1) assms(1) this, of "from"]
      show ?thesis using 2(3) \<open>onMessage rt g data from = onQuery rt g d from\<close> by simp
    next
      case 3
      then show ?thesis
        using onAnnouncePeerQuery_cases [of rt g d "from"]
          \<open>onMessage rt g data from = onQuery rt g d from\<close> by auto
    qed
  next
    case (3 d)
    then show ?thesis using onReply_cases [of rt g d "from"] by auto
  qed
qed

end
